theory Spec2Isabelle
  imports Main "HOL-Library.Word" "HOL-Library.Multiset"
begin

section \<open>JavaScript values used by the export service\<close>

text \<open>
  A JavaScript string is a sequence of UTF-16 code units; \<open>length\<close> counts code
  units. The code units are kept as natural numbers. \<open>asc\<close> reads an ASCII literal of
  the source; the Chinese literals of the source are written as their code units.
  A \<open>Buffer\<close> is a list of bytes.
\<close>

type_synonym jsstring = "nat list"

type_synonym byte = "8 word"

definition asc :: "string \<Rightarrow> jsstring" where
  "asc s = map of_char s"

text \<open>What a \<open>throw\<close> carries. Only the fact that something was thrown matters here.\<close>

datatype exn = SyntaxError | TypeError | DecompressError | IOError

text \<open>\<open>try { body } catch { handler }\<close>.\<close>

definition try_catch :: "exn + 'a \<Rightarrow> (exn \<Rightarrow> exn + 'a) \<Rightarrow> exn + 'a" where
  "try_catch body handler = (case body of Inl e \<Rightarrow> handler e | Inr v \<Rightarrow> Inr v)"

definition isLineTerminator :: "nat \<Rightarrow> bool" where
  "isLineTerminator c = (c = 0x0A \<or> c = 0x0D \<or> c = 0x2028 \<or> c = 0x2029)"

text \<open>The characters matched by \<open>\s\<close> and removed by \<open>trim\<close>.\<close>

definition isWhiteSpace :: "nat \<Rightarrow> bool" where
  "isWhiteSpace c = (c = 0x09 \<or> c = 0x0B \<or> c = 0x0C \<or> c = 0x20 \<or> c = 0xA0 \<or> c = 0x1680
     \<or> (0x2000 \<le> c \<and> c \<le> 0x200A) \<or> c = 0x202F \<or> c = 0x205F \<or> c = 0x3000
     \<or> c = 0xFEFF \<or> isLineTerminator c)"

definition trim :: "jsstring \<Rightarrow> jsstring" where
  "trim s = rev (dropWhile isWhiteSpace (rev (dropWhile isWhiteSpace s)))"

fun startsWith :: "jsstring \<Rightarrow> jsstring \<Rightarrow> bool" where
  "startsWith s [] = True"
| "startsWith [] (y # ys) = False"
| "startsWith (x # xs) (y # ys) = (x = y \<and> startsWith xs ys)"

fun includes_str :: "jsstring \<Rightarrow> jsstring \<Rightarrow> bool" where
  "includes_str [] sub = (sub = [])"
| "includes_str (x # xs) sub = (startsWith (x # xs) sub \<or> includes_str xs sub)"

text \<open>
  \<open>toLowerCase\<close> on the ASCII letters. The source only tests the result with
  \<open>startsWith('wxid_')\<close>, and no character outside ASCII lowers to one of these five.
\<close>

definition toLowerCase :: "jsstring \<Rightarrow> jsstring" where
  "toLowerCase s = map (\<lambda>c. if 0x41 \<le> c \<and> c \<le> 0x5A then c + 0x20 else c) s"

text \<open>\<open>parseInt\<close> of a string of decimal digits (what \<open>(\d+)\<close> captures).\<close>

definition parseDigits :: "jsstring \<Rightarrow> int" where
  "parseDigits s = foldl (\<lambda>acc c. 10 * acc + (int c - 0x30)) 0 s"

section \<open>Regular expressions\<close>

text \<open>
  The regular expressions of the source are values of \<open>re\<close>, matched by a backtracking
  matcher with the priorities of ECMAScript: a greedy star tries one more iteration first,
  a lazy one the rest of the pattern first; an iteration that consumes nothing fails.
  With the flag \<open>i\<close> the ASCII letters are compared without case; every pattern of the
  source that carries the flag has only ASCII letters, which no other character folds to.
\<close>

datatype citem = CChar nat | CRange nat nat | CSpace | CDigit | CDot

datatype re =
    Eps
  | Cls bool "citem list"
  | Seq re re
  | Star bool re
  | Opt re
  | Grp nat re
  | Bol
  | Eol
  | NotAhead re

definition canon :: "bool \<Rightarrow> nat \<Rightarrow> nat" where
  "canon ic c = (if ic \<and> 0x61 \<le> c \<and> c \<le> 0x7A then c - 0x20 else c)"

fun citem_match :: "bool \<Rightarrow> citem \<Rightarrow> nat \<Rightarrow> bool" where
  "citem_match ic (CChar a) c = (canon ic a = canon ic c)"
| "citem_match ic (CRange lo hi) c =
     ((lo \<le> c \<and> c \<le> hi) \<or>
      (ic \<and> ((0x41 \<le> c \<and> c \<le> 0x5A \<and> lo \<le> c + 0x20 \<and> c + 0x20 \<le> hi) \<or>
             (0x61 \<le> c \<and> c \<le> 0x7A \<and> lo \<le> c - 0x20 \<and> c - 0x20 \<le> hi))))"
| "citem_match ic CSpace c = isWhiteSpace c"
| "citem_match ic CDigit c = (0x30 \<le> c \<and> c \<le> 0x39)"
| "citem_match ic CDot c = (\<not> isLineTerminator c)"

text \<open>\<open>Cls False items\<close> is \<open>[items]\<close>, \<open>Cls True items\<close> is \<open>[^items]\<close>.\<close>

definition cls_match :: "bool \<Rightarrow> bool \<Rightarrow> citem list \<Rightarrow> nat \<Rightarrow> bool" where
  "cls_match ic neg items c = (list_ex (\<lambda>i. citem_match ic i c) items \<noteq> neg)"

text \<open>Captures: group number, start and end index, the latest first.\<close>

type_synonym caps = "(nat \<times> nat \<times> nat) list"

text \<open>The rest of the input, the index reached, the captures.\<close>

type_synonym mstate = "jsstring \<times> nat \<times> caps"

function rmatch :: "bool \<Rightarrow> re \<Rightarrow> jsstring \<Rightarrow> nat \<Rightarrow> caps \<Rightarrow>
    (jsstring \<Rightarrow> nat \<Rightarrow> caps \<Rightarrow> mstate option) \<Rightarrow> mstate option" where
  "rmatch ic Eps s p c k = k s p c"
| "rmatch ic (Cls neg items) s p c k =
     (case s of [] \<Rightarrow> None
      | x # xs \<Rightarrow> if cls_match ic neg items x then k xs (Suc p) c else None)"
| "rmatch ic (Seq r1 r2) s p c k =
     rmatch ic r1 s p c (\<lambda>s' p' c'. rmatch ic r2 s' p' c' k)"
| "rmatch ic (Star greedy r) s p c k =
     (if greedy then
        (case rmatch ic r s p c
                (\<lambda>s' p' c'. if length s' < length s
                   then rmatch ic (Star greedy r) s' p' c' k else None) of
           Some m \<Rightarrow> Some m
         | None \<Rightarrow> k s p c)
      else
        (case k s p c of
           Some m \<Rightarrow> Some m
         | None \<Rightarrow> rmatch ic r s p c
                (\<lambda>s' p' c'. if length s' < length s
                   then rmatch ic (Star greedy r) s' p' c' k else None)))"
| "rmatch ic (Opt r) s p c k =
     (case rmatch ic r s p c k of Some m \<Rightarrow> Some m | None \<Rightarrow> k s p c)"
| "rmatch ic (Grp i r) s p c k =
     rmatch ic r s p c (\<lambda>s' p' c'. k s' p' ((i, p, p') # c'))"
| "rmatch ic Bol s p c k = (if p = 0 then k s p c else None)"
| "rmatch ic Eol s p c k = (if s = [] then k s p c else None)"
| "rmatch ic (NotAhead r) s p c k =
     (case rmatch ic r s p c (\<lambda>s' p' c'. Some (s', p', c')) of
        Some m \<Rightarrow> None
      | None \<Rightarrow> k s p c)"
  by pat_completeness auto
termination
  by (relation "measures [\<lambda>(ic, r, s, p, c, k). size r, \<lambda>(ic, r, s, p, c, k). length s]") auto

text \<open>
  \<open>regex.exec(s)\<close> without the flag \<open>g\<close>: the leftmost index at which the pattern
  matches, as (start, (rest, end, captures)); \<open>None\<close> is \<open>null\<close>.
\<close>

fun rsearch :: "bool \<Rightarrow> re \<Rightarrow> jsstring \<Rightarrow> nat \<Rightarrow> (nat \<times> mstate) option" where
  "rsearch ic r s p =
     (case rmatch ic r s p [] (\<lambda>s' p' c'. Some (s', p', c')) of
        Some m \<Rightarrow> Some (p, m)
      | None \<Rightarrow> (case s of [] \<Rightarrow> None | x # xs \<Rightarrow> rsearch ic r xs (Suc p)))"

definition substring :: "jsstring \<Rightarrow> nat \<Rightarrow> nat \<Rightarrow> jsstring" where
  "substring s a b = take (b - a) (drop a s)"

text \<open>\<open>match[i]\<close> for a group that took part in the match.\<close>

definition group :: "jsstring \<Rightarrow> caps \<Rightarrow> nat \<Rightarrow> jsstring" where
  "group s c i = (case map_of c i of None \<Rightarrow> [] | Some (a, b) \<Rightarrow> substring s a b)"

text \<open>\<open>regex.exec(s)\<close> where only \<open>match[1]\<close> is read.\<close>

definition exec1 :: "bool \<Rightarrow> re \<Rightarrow> jsstring \<Rightarrow> jsstring option" where
  "exec1 ic r s = (case rsearch ic r s 0 of None \<Rightarrow> None
                   | Some (a, s', b, c) \<Rightarrow> Some (group s c 1))"

definition test :: "bool \<Rightarrow> re \<Rightarrow> jsstring \<Rightarrow> bool" where
  "test ic r s = (rsearch ic r s 0 \<noteq> None)"

text \<open>\<open>s.replace(regex, t)\<close> without the flag \<open>g\<close>: the first match only.\<close>

definition replace_first :: "bool \<Rightarrow> re \<Rightarrow> jsstring \<Rightarrow> jsstring \<Rightarrow> jsstring" where
  "replace_first ic r t s = (case rsearch ic r s 0 of None \<Rightarrow> s
                             | Some (a, s', b, c) \<Rightarrow> take a s @ t @ s')"

text \<open>
  \<open>s.replace(regex, t)\<close> with the flag \<open>g\<close>: every match from left to right, the
  search going on where the last match ended (one character further after an empty match).
\<close>

function replace_all :: "bool \<Rightarrow> re \<Rightarrow> jsstring \<Rightarrow> jsstring \<Rightarrow> nat \<Rightarrow> jsstring" where
  "replace_all ic r t s p =
     (case rmatch ic r s p [] (\<lambda>s' p' c'. Some (s', p', c')) of
        None \<Rightarrow> (case s of [] \<Rightarrow> [] | x # xs \<Rightarrow> x # replace_all ic r t xs (Suc p))
      | Some (s', p', c') \<Rightarrow>
          (if length s' < length s then t @ replace_all ic r t s' p'
           else (case s of [] \<Rightarrow> t | x # xs \<Rightarrow> t @ x # replace_all ic r t xs (Suc p))))"
  by pat_completeness auto
termination
  by (relation "measure (\<lambda>(ic, r, t, s, p). length s)") auto

text \<open>
  The same with a replacer function, which is given the captures of each match and may
  throw; what it throws leaves \<open>replace\<close>.
\<close>

function replace_all_with :: "bool \<Rightarrow> re \<Rightarrow> (caps \<Rightarrow> exn + jsstring) \<Rightarrow> jsstring \<Rightarrow> nat
    \<Rightarrow> exn + jsstring" where
  "replace_all_with ic r f s p =
     (case rmatch ic r s p [] (\<lambda>s' p' c'. Some (s', p', c')) of
        None \<Rightarrow> (case s of [] \<Rightarrow> Inr []
                 | x # xs \<Rightarrow> map_sum id ((#) x) (replace_all_with ic r f xs (Suc p)))
      | Some (s', p', c') \<Rightarrow>
          (case f c' of
             Inl e \<Rightarrow> Inl e
           | Inr t \<Rightarrow>
               (if length s' < length s then map_sum id ((@) t) (replace_all_with ic r f s' p')
                else (case s of [] \<Rightarrow> Inr t
                      | x # xs \<Rightarrow> map_sum id (\<lambda>u. t @ x # u)
                                   (replace_all_with ic r f xs (Suc p))))))"
  by pat_completeness auto
termination
  by (relation "measure (\<lambda>(ic, r, f, s, p). length s)") auto

subsection \<open>Writing patterns\<close>

definition ch :: "char \<Rightarrow> nat" where
  "ch c = of_char c"

fun lits :: "jsstring \<Rightarrow> re" where
  "lits [] = Eps"
| "lits [c] = Cls False [CChar c]"
| "lits (c # cs) = Seq (Cls False [CChar c]) (lits cs)"

definition Lit :: "string \<Rightarrow> re" where
  "Lit s = lits (asc s)"

fun seqs :: "re list \<Rightarrow> re" where
  "seqs [] = Eps"
| "seqs [r] = r"
| "seqs (r # rs) = Seq r (seqs rs)"

text \<open>\<open>r+\<close> and \<open>r+?\<close>.\<close>

definition Plus :: "bool \<Rightarrow> re \<Rightarrow> re" where
  "Plus greedy r = Seq r (Star greedy r)"

text \<open>\<open>[\s\S]\<close>: any character.\<close>

definition AnyChar :: re where
  "AnyChar = Cls True []"

text \<open>\<open>.\<close>: any character but a line terminator.\<close>

definition Dot :: re where
  "Dot = Cls False [CDot]"

definition Digit :: re where
  "Digit = Cls False [CDigit]"

text \<open>\<open><![CDATA[(.*?)]]>\<close>, as it stands between the tags of several patterns.\<close>

definition cdata_group :: re where
  "cdata_group = seqs [Lit ''<![CDATA['', Grp 1 (Star False Dot), Lit '']]>'']"

section \<open>Message content parser\<close>

subsection \<open>The labels of the source\<close>

text \<open>Each label is the bracketed Chinese literal of the source, as UTF-16 code units.\<close>

definition lbl_image :: jsstring where "lbl_image = [0x5B, 0x56FE, 0x7247, 0x5D]"
definition lbl_voice :: jsstring where "lbl_voice = [0x5B, 0x8BED, 0x97F3, 0x6D88, 0x606F, 0x5D]"
definition lbl_card :: jsstring where "lbl_card = [0x5B, 0x540D, 0x7247, 0x5D]"
definition lbl_video :: jsstring where "lbl_video = [0x5B, 0x89C6, 0x9891, 0x5D]"
definition lbl_emoji :: jsstring where "lbl_emoji = [0x5B, 0x52A8, 0x753B, 0x8868, 0x60C5, 0x5D]"
definition lbl_location :: jsstring where "lbl_location = [0x5B, 0x4F4D, 0x7F6E, 0x5D]"
definition lbl_link :: jsstring where "lbl_link = [0x5B, 0x94FE, 0x63A5, 0x5D]"
definition lbl_quote :: jsstring where "lbl_quote = [0x5B, 0x5F15, 0x7528, 0x6D88, 0x606F, 0x5D]"
definition lbl_system :: jsstring where "lbl_system = [0x5B, 0x7CFB, 0x7EDF, 0x6D88, 0x606F, 0x5D]"
definition lbl_call :: jsstring where "lbl_call = [0x5B, 0x901A, 0x8BDD, 0x5D]"

text \<open>The call kinds and the status phrases of \<open>parseVoipMessage\<close>.\<close>

definition zh_video_call :: jsstring where "zh_video_call = [0x89C6, 0x9891, 0x901A, 0x8BDD]"
definition zh_voice_call :: jsstring where "zh_voice_call = [0x8BED, 0x97F3, 0x901A, 0x8BDD]"
definition zh_call :: jsstring where "zh_call = [0x901A, 0x8BDD]"
definition zh_duration :: jsstring where "zh_duration = [0x901A, 0x8BDD, 0x65F6, 0x957F]"
definition zh_answered :: jsstring where "zh_answered = [0x5DF2, 0x63A5, 0x542C]"
definition zh_no_answer :: jsstring where "zh_no_answer = [0x5BF9, 0x65B9, 0x65E0, 0x5E94, 0x7B54]"
definition zh_cancelled :: jsstring where "zh_cancelled = [0x5DF2, 0x53D6, 0x6D88]"
definition zh_elsewhere_ta :: jsstring where
  "zh_elsewhere_ta = [0x5DF2, 0x5728, 0x5176, 0x5B83, 0x8BBE, 0x5907, 0x63A5, 0x542C]"
definition zh_elsewhere :: jsstring where
  "zh_elsewhere = [0x5DF2, 0x5728, 0x5176, 0x4ED6, 0x8BBE, 0x5907, 0x63A5, 0x542C]"
definition zh_peer_declined :: jsstring where
  "zh_peer_declined = [0x5BF9, 0x65B9, 0x5DF2, 0x62D2, 0x7EDD]"
definition zh_declined :: jsstring where "zh_declined = [0x5DF2, 0x62D2, 0x7EDD]"
definition zh_busy_unanswered :: jsstring where
  "zh_busy_unanswered = [0x5FD9, 0x7EBF, 0x672A, 0x63A5, 0x542C]"
definition zh_busy :: jsstring where "zh_busy = [0x5FD9, 0x7EBF]"
definition zh_unanswered :: jsstring where "zh_unanswered = [0x672A, 0x63A5, 0x542C]"

text \<open>\<open>a || b\<close> on strings: the empty string is falsy.\<close>

definition or_else :: "jsstring \<Rightarrow> jsstring \<Rightarrow> jsstring" where
  "or_else a b = (if a = [] then b else a)"

subsection \<open>convertMessageType\<close>

definition MESSAGE_TYPE_MAP :: "int \<Rightarrow> int option" where
  "MESSAGE_TYPE_MAP t =
     (if t = 1 then Some 0 else if t = 3 then Some 1 else if t = 34 then Some 2
      else if t = 43 then Some 3 else if t = 49 then Some 7 else if t = 47 then Some 5
      else if t = 48 then Some 8 else if t = 42 then Some 27 else if t = 50 then Some 23
      else if t = 10000 then Some 80 else None)"

text \<open>\<open>/<type>(\d+)<\/type>/i\<close>\<close>

definition re_type :: re where
  "re_type = seqs [Lit ''<type>'', Grp 1 (Plus True Digit), Lit ''</type>'']"

definition convertMessageType :: "int \<Rightarrow> jsstring \<Rightarrow> int" where
  "convertMessageType localType content =
     (case (if localType = 49 then exec1 True re_type content else None) of
        Some d \<Rightarrow>
          (let subType = parseDigits d in
           if subType = 6 then 4
           else if subType = 33 \<or> subType = 36 then 24
           else if subType = 57 then 25
           else 7)
      | None \<Rightarrow> (case MESSAGE_TYPE_MAP localType of Some t \<Rightarrow> t | None \<Rightarrow> 99))"

subsection \<open>stripSenderPrefix and extractXmlValue\<close>

text \<open>\<open>/^[\s]*([a-zA-Z0-9_-]+):(?!\/\/)/\<close>\<close>

definition re_sender_prefix :: re where
  "re_sender_prefix =
     seqs [Bol, Star True (Cls False [CSpace]),
           Grp 1 (Plus True (Cls False [CRange (ch CHR ''a'') (ch CHR ''z''),
                                        CRange (ch CHR ''A'') (ch CHR ''Z''),
                                        CRange (ch CHR ''0'') (ch CHR ''9''),
                                        CChar (ch CHR ''_''), CChar (ch CHR ''-'')])),
           Lit '':'', NotAhead (Lit ''//'')]"

definition stripSenderPrefix :: "jsstring \<Rightarrow> jsstring" where
  "stripSenderPrefix content = replace_first False re_sender_prefix [] content"

text \<open>
  \<open>new RegExp(`<${tagName}>([\s\S]*?)</${tagName}>`, 'i')\<close>. The source calls
  \<open>extractXmlValue\<close> with the tag name \<open>title\<close> only, which the pattern reads as
  the letters it is made of.
\<close>

definition re_tag_value :: "jsstring \<Rightarrow> re" where
  "re_tag_value tagName =
     seqs [lits (asc ''<'' @ tagName @ asc ''>''), Grp 1 (Star False AnyChar),
           lits (asc ''</'' @ tagName @ asc ''>'')]"

text \<open>\<open>/<!\[CDATA\[/g\<close> and \<open>/\]\]>/g\<close>\<close>

definition re_cdata_open :: re where
  "re_cdata_open = Lit ''<![CDATA[''"

definition re_cdata_close :: re where
  "re_cdata_close = Lit '']]>''"

definition strip_cdata :: "jsstring \<Rightarrow> jsstring" where
  "strip_cdata s = replace_all False re_cdata_close [] (replace_all False re_cdata_open [] s 0) 0"

definition extractXmlValue :: "jsstring \<Rightarrow> jsstring \<Rightarrow> jsstring" where
  "extractXmlValue xml tagName =
     (case exec1 True (re_tag_value tagName) xml of
        Some m \<Rightarrow> trim (strip_cdata m)
      | None \<Rightarrow> [])"

subsection \<open>cleanSystemMessage\<close>

text \<open>\<open>/<sysmsg[^>]*>([\s\S]*?)<\/sysmsg>/i\<close>\<close>

definition re_sysmsg :: re where
  "re_sysmsg = seqs [Lit ''<sysmsg'', Star True (Cls True [CChar (ch CHR ''>'')]), Lit ''>'',
                     Grp 1 (Star False AnyChar), Lit ''</sysmsg>'']"

text \<open>\<open>/<replacemsg><!\[CDATA\[(.*?)\]\]><\/replacemsg>/i\<close>\<close>

definition re_replacemsg :: re where
  "re_replacemsg = seqs [Lit ''<replacemsg>'', cdata_group, Lit ''</replacemsg>'']"

text \<open>\<open>/<template><!\[CDATA\[(.*?)\]\]><\/template>/i\<close>\<close>

definition re_template :: re where
  "re_template = seqs [Lit ''<template>'', cdata_group, Lit ''</template>'']"

text \<open>\<open>/\$\{([^}]+)\}/g\<close>\<close>

definition re_placeholder :: re where
  "re_placeholder = seqs [Lit ''${'', Grp 1 (Plus True (Cls True [CChar (ch CHR ''}'')])), Lit ''}'']"

text \<open>\<open>/<[^>]+>/g\<close>\<close>

definition re_any_tag :: re where
  "re_any_tag = seqs [Lit ''<'', Plus True (Cls True [CChar (ch CHR ''>'')]), Lit ''>'']"

text \<open>\<open>/<img[^>]*>/gi\<close>\<close>

definition re_img :: re where
  "re_img = seqs [Lit ''<img'', Star True (Cls True [CChar (ch CHR ''>'')]), Lit ''>'']"

text \<open>\<open>/<\/?[a-zA-Z0-9_:]+[^>]*>/g\<close>\<close>

definition re_xml_tag :: re where
  "re_xml_tag =
     seqs [Lit ''<'', Opt (Lit ''/''),
           Plus True (Cls False [CRange (ch CHR ''a'') (ch CHR ''z''),
                                 CRange (ch CHR ''A'') (ch CHR ''Z''),
                                 CRange (ch CHR ''0'') (ch CHR ''9''),
                                 CChar (ch CHR ''_''), CChar (ch CHR '':'')]),
           Star True (Cls True [CChar (ch CHR ''>'')]), Lit ''>'']"

text \<open>\<open>/\s+/g\<close>\<close>

definition re_spaces :: re where
  "re_spaces = Plus True (Cls False [CSpace])"

text \<open>
  The source of the pattern that the replacer of \<open>cleanSystemMessage\<close> builds from the
  name between \<open>${\<close> and \<open>}\<close>: the template literal of the source evaluates to
  \<open><NAME><!\[CDATA\[([^]]*)\]\]></NAME>\<close>, with the name put in as it is.
\<close>

definition var_pattern :: "jsstring \<Rightarrow> jsstring" where
  "var_pattern varName =
     asc ''<'' @ varName @ asc ''><!'' @ [0x5C] @ asc ''[CDATA'' @ [0x5C] @ asc ''[([^]]*)''
       @ [0x5C] @ asc '']'' @ [0x5C] @ asc '']></'' @ varName @ asc ''>''"

text \<open>
  \<open>new RegExp(source, 'i')\<close> is the constructor of the language and a parameter
  \<open>RegExp_new\<close> of the parser: it throws a \<open>SyntaxError\<close> on a source that is not a
  pattern and gives the pattern otherwise. One case in which it throws is decided here:
  a group that is opened and never closed, a \<open>)\<close> that closes nothing, or a backslash
  at the very end. The scan skips escaped characters and character classes, which end at
  the first \<open>]\<close>.
\<close>

fun unbalanced_groups :: "bool \<Rightarrow> nat \<Rightarrow> jsstring \<Rightarrow> bool" where
  "unbalanced_groups in_class depth [] = (0 < depth)"
| "unbalanced_groups in_class depth (c # cs) =
     (if c = 0x5C then
        (case cs of [] \<Rightarrow> True | d # ds \<Rightarrow> unbalanced_groups in_class depth ds)
      else if in_class then unbalanced_groups (c \<noteq> ch CHR '']'') depth cs
      else if c = ch CHR ''['' then unbalanced_groups True depth cs
      else if c = ch CHR ''('' then unbalanced_groups False (Suc depth) cs
      else if c = ch CHR '')'' then (depth = 0 \<or> unbalanced_groups False (depth - 1) cs)
      else unbalanced_groups False depth cs)"

definition RegExp_throws_on_unbalanced :: "(jsstring \<Rightarrow> exn + re) \<Rightarrow> bool" where
  "RegExp_throws_on_unbalanced RegExp_new =
     (\<forall>source. unbalanced_groups False 0 source \<longrightarrow> RegExp_new source = Inl SyntaxError)"

text \<open>
  The replacer: \<open>(_, varName) => { const varMatch = new RegExp(...).exec(content);
  return varMatch ? varMatch[1] : '' }\<close>. A group 1 that took no part in the match is
  \<open>undefined\<close>, which \<open>replace\<close> writes out.
\<close>

definition pat_var :: "(jsstring \<Rightarrow> exn + re) \<Rightarrow> jsstring \<Rightarrow> jsstring \<Rightarrow> exn + jsstring" where
  "pat_var RegExp_new content varName =
     (case RegExp_new (var_pattern varName) of
        Inl e \<Rightarrow> Inl e
      | Inr r \<Rightarrow>
          Inr (case rsearch True r content 0 of
                 None \<Rightarrow> []
               | Some (a, s', b, c) \<Rightarrow>
                   (case map_of c 1 of None \<Rightarrow> asc ''undefined''
                    | Some (i, j) \<Rightarrow> substring content i j)))"

definition cleanSystemMessage :: "(jsstring \<Rightarrow> exn + re) \<Rightarrow> jsstring \<Rightarrow> exn + jsstring" where
  "cleanSystemMessage RegExp_new content0 =
     (if content0 = [] then Inr lbl_system
      else
        let content = (case exec1 True re_sysmsg content0 of Some m \<Rightarrow> m | None \<Rightarrow> content0) in
        case exec1 True re_replacemsg content of
          Some m \<Rightarrow> Inr (trim m)
        | None \<Rightarrow>
            (case exec1 True re_template content of
               Some t \<Rightarrow>
                 (case replace_all_with False re_placeholder
                         (\<lambda>c. pat_var RegExp_new content (group t c 1)) t 0 of
                    Inl e \<Rightarrow> Inl e
                  | Inr u \<Rightarrow> Inr (trim (replace_all False re_any_tag [] u 0)))
             | None \<Rightarrow>
                 Inr (or_else
                        (trim (replace_all False re_spaces (asc '' '')
                                 (replace_all False re_xml_tag []
                                    (replace_all True re_img [] (strip_cdata content) 0) 0) 0))
                        lbl_system)))"

subsection \<open>parseVoipMessage\<close>

text \<open>\<open>/<msg><!\[CDATA\[(.*?)\]\]><\/msg>/i\<close>\<close>

definition re_msg :: re where
  "re_msg = seqs [Lit ''<msg>'', cdata_group, Lit ''</msg>'']"

text \<open>\<open>/<room_type>(\d+)<\/room_type>/i\<close>\<close>

definition re_room_type :: re where
  "re_room_type = seqs [Lit ''<room_type>'', Grp 1 (Plus True Digit), Lit ''</room_type>'']"

text \<open>\<open>/DURATION\s*(\d{1,2}:\d{2}(?::\d{2})?)/i\<close>, DURATION being \<open>zh_duration\<close>.\<close>

definition re_duration :: re where
  "re_duration =
     seqs [lits zh_duration, Star True (Cls False [CSpace]),
           Grp 1 (seqs [Digit, Opt Digit, Lit '':'', Digit, Digit,
                        Opt (seqs [Lit '':'', Digit, Digit])])]"

text \<open>\<open>`[${callType}] ${status}`\<close>\<close>

definition call_label :: "jsstring \<Rightarrow> jsstring \<Rightarrow> jsstring" where
  "call_label callType status = asc ''['' @ callType @ asc ''] '' @ status"

text \<open>The body of the \<open>try\<close> block; none of its steps throws.\<close>

definition parseVoipMessage_body :: "jsstring \<Rightarrow> jsstring" where
  "parseVoipMessage_body content =
     (if content = [] then lbl_call
      else
        let msg = (case exec1 True re_msg content of Some m \<Rightarrow> trim m | None \<Rightarrow> []);
            roomType = (case exec1 True re_room_type content of
                          Some d \<Rightarrow> parseDigits d | None \<Rightarrow> - 1);
            callType = (if roomType = 0 then zh_video_call
                        else if roomType = 1 then zh_voice_call
                        else zh_call)
        in
          if includes_str msg zh_duration then
            (let duration = (case exec1 True re_duration msg of Some d \<Rightarrow> d | None \<Rightarrow> []) in
             if duration \<noteq> [] then call_label callType duration
             else call_label callType zh_answered)
          else if includes_str msg zh_no_answer then call_label callType zh_no_answer
          else if includes_str msg zh_cancelled then call_label callType zh_cancelled
          else if includes_str msg zh_elsewhere_ta \<or> includes_str msg zh_elsewhere
            then call_label callType zh_elsewhere
          else if includes_str msg zh_peer_declined \<or> includes_str msg zh_declined
            then call_label callType zh_peer_declined
          else if includes_str msg zh_busy_unanswered \<or> includes_str msg zh_busy
            then call_label callType zh_busy_unanswered
          else if includes_str msg zh_unanswered then call_label callType zh_unanswered
          else if msg \<noteq> [] then call_label callType msg
          else asc ''['' @ callType @ asc '']'')"

definition parseVoipMessage :: "jsstring \<Rightarrow> exn + jsstring" where
  "parseVoipMessage content =
     try_catch (Inr (parseVoipMessage_body content)) (\<lambda>e. Inr lbl_call)"

subsection \<open>parseMessageContent\<close>

text \<open>
  The result is \<open>Inl e\<close> when the call throws, \<open>Inr None\<close> for \<open>null\<close> and
  \<open>Inr (Some s)\<close> for a string. \<open>localType\<close> is the number read from the row.
\<close>

definition parseMessageContent ::
    "(jsstring \<Rightarrow> exn + re) \<Rightarrow> jsstring \<Rightarrow> int \<Rightarrow> exn + jsstring option" where
  "parseMessageContent RegExp_new content localType =
     (if content = [] then Inr None
      else if localType = 1 then Inr (Some (stripSenderPrefix content))
      else if localType = 3 then Inr (Some lbl_image)
      else if localType = 34 then Inr (Some lbl_voice)
      else if localType = 42 then Inr (Some lbl_card)
      else if localType = 43 then Inr (Some lbl_video)
      else if localType = 47 then Inr (Some lbl_emoji)
      else if localType = 48 then Inr (Some lbl_location)
      else if localType = 49 then
        Inr (Some (or_else (extractXmlValue content (asc ''title'')) lbl_link))
      else if localType = 50 then map_sum id Some (parseVoipMessage content)
      else if localType = 10000 then map_sum id Some (cleanSystemMessage RegExp_new content)
      else if localType = 266287972401 then
        map_sum id Some (cleanSystemMessage RegExp_new content)
      else if includes_str content (asc ''<type>57</type>'') then
        Inr (Some (or_else (extractXmlValue content (asc ''title'')) lbl_quote))
      else
        Inr (let s = stripSenderPrefix content in if s = [] then None else Some s))"

section \<open>Content decoder\<close>

text \<open>
  What \<open>decodeMaybeCompressed\<close> may be given (\<open>raw: any\<close>): the function tells
  strings from everything else, so every value that is not a string is \<open>JOther\<close>
  (a number, a \<open>Buffer\<close>, an object).
\<close>

datatype jsvalue = JUndefined | JNull | JString jsstring | JOther

subsection \<open>Buffers\<close>

definition hexval :: "nat \<Rightarrow> nat option" where
  "hexval c =
     (if ch CHR ''0'' \<le> c \<and> c \<le> ch CHR ''9'' then Some (c - ch CHR ''0'')
      else if ch CHR ''a'' \<le> c \<and> c \<le> ch CHR ''f'' then Some (c - ch CHR ''a'' + 10)
      else if ch CHR ''A'' \<le> c \<and> c \<le> ch CHR ''F'' then Some (c - ch CHR ''A'' + 10)
      else None)"

text \<open>\<open>Buffer.from(s, 'hex')\<close>: two digits a byte, up to the first pair that is not hex.\<close>

fun Buffer_from_hex :: "jsstring \<Rightarrow> byte list" where
  "Buffer_from_hex (a # b # rest) =
     (case (hexval a, hexval b) of
        (Some x, Some y) \<Rightarrow> of_nat (16 * x + y) # Buffer_from_hex rest
      | _ \<Rightarrow> [])"
| "Buffer_from_hex _ = []"

text \<open>\<open>data.readUInt32LE(0)\<close> on a buffer of at least four bytes.\<close>

definition readUInt32LE :: "byte list \<Rightarrow> nat" where
  "readUInt32LE data =
     unat (data ! 0) + 0x100 * unat (data ! 1) + 0x10000 * unat (data ! 2)
       + 0x1000000 * unat (data ! 3)"

text \<open>\<open>data.toString('latin1')\<close>: every byte is the character of the same number.\<close>

definition latin1 :: "byte list \<Rightarrow> jsstring" where
  "latin1 data = map unat data"

text \<open>
  \<open>data.toString('utf-8')\<close>: the decoder never fails; each maximal ill-formed part of
  the input becomes one U+FFFD, and a byte that cannot continue a sequence is read again
  as the start of the next one. The state is \<open>None\<close> between characters and
  \<open>Some (code point so far, bytes needed, least and greatest next byte)\<close> within one.
\<close>

function utf8_points :: "(nat \<times> nat \<times> nat \<times> nat) option \<Rightarrow> byte list \<Rightarrow> nat list" where
  "utf8_points None [] = []"
| "utf8_points (Some st) [] = [0xFFFD]"
| "utf8_points None (b # bs) =
     (let v = unat b in
      if v \<le> 0x7F then v # utf8_points None bs
      else if 0xC2 \<le> v \<and> v \<le> 0xDF then utf8_points (Some (v mod 0x20, 1, 0x80, 0xBF)) bs
      else if 0xE0 \<le> v \<and> v \<le> 0xEF then
        utf8_points (Some (v mod 0x10, 2, if v = 0xE0 then 0xA0 else 0x80,
                           if v = 0xED then 0x9F else 0xBF)) bs
      else if 0xF0 \<le> v \<and> v \<le> 0xF4 then
        utf8_points (Some (v mod 0x08, 3, if v = 0xF0 then 0x90 else 0x80,
                           if v = 0xF4 then 0x8F else 0xBF)) bs
      else 0xFFFD # utf8_points None bs)"
| "utf8_points (Some (cp, needed, lo, hi)) (b # bs) =
     (let v = unat b in
      if v < lo \<or> hi < v then 0xFFFD # utf8_points None (b # bs)
      else if needed \<le> 1 then (cp * 0x40 + v mod 0x40) # utf8_points None bs
      else utf8_points (Some (cp * 0x40 + v mod 0x40, needed - 1, 0x80, 0xBF)) bs)"
  by pat_completeness auto
termination
  by (relation "measure (\<lambda>(st, bs). 2 * length bs + (if st = None then 0 else 1))") auto

text \<open>A code point as UTF-16: a surrogate pair above U+FFFF.\<close>

definition utf16_units :: "nat \<Rightarrow> jsstring" where
  "utf16_units cp =
     (if cp < 0x10000 then [cp]
      else [0xD800 + (cp - 0x10000) div 0x400, 0xDC00 + (cp - 0x10000) mod 0x400])"

definition toString_utf8 :: "byte list \<Rightarrow> jsstring" where
  "toString_utf8 data = concat (map utf16_units (utf8_points None data))"

subsection \<open>looksLikeHex, looksLikeBase64\<close>

text \<open>\<open>/^[0-9a-fA-F]+$/\<close>\<close>

definition re_hex :: re where
  "re_hex = seqs [Bol, Plus True (Cls False [CRange (ch CHR ''0'') (ch CHR ''9''),
                                           CRange (ch CHR ''a'') (ch CHR ''f''),
                                           CRange (ch CHR ''A'') (ch CHR ''F'')]), Eol]"

text \<open>\<open>/^[A-Za-z0-9+/=]+$/\<close>\<close>

definition re_base64 :: re where
  "re_base64 = seqs [Bol, Plus True (Cls False [CRange (ch CHR ''A'') (ch CHR ''Z''),
                                              CRange (ch CHR ''a'') (ch CHR ''z''),
                                              CRange (ch CHR ''0'') (ch CHR ''9''),
                                              CChar (ch CHR ''+''), CChar (ch CHR ''/''),
                                              CChar (ch CHR ''='')]), Eol]"

definition looksLikeHex :: "jsstring \<Rightarrow> bool" where
  "looksLikeHex s = (if length s mod 2 \<noteq> 0 then False else test False re_hex s)"

definition looksLikeBase64 :: "jsstring \<Rightarrow> bool" where
  "looksLikeBase64 s = (if length s mod 4 \<noteq> 0 then False else test False re_base64 s)"

subsection \<open>decodeBinaryContent, decodeMaybeCompressed, decodeMessageContent\<close>

text \<open>
  The two collaborators are parameters: \<open>fzstd\<close> is \<open>fzstd.decompress\<close>, which
  throws on a frame it cannot read (so does \<open>require('fzstd')\<close> when the module is
  missing); \<open>base64\<close> is \<open>Buffer.from(raw, 'base64')\<close>, which skips what is not
  base64 and never throws.
\<close>

definition has_zstd_magic :: "byte list \<Rightarrow> bool" where
  "has_zstd_magic data = (4 \<le> length data \<and> readUInt32LE data = 0xFD2FB528)"

definition replacementCount :: "jsstring \<Rightarrow> nat" where
  "replacementCount decoded = length (filter (\<lambda>c. c = 0xFFFD) decoded)"

text \<open>\<open>decoded.replace(/\uFFFD/g, '')\<close>\<close>

definition remove_replacement :: "jsstring \<Rightarrow> jsstring" where
  "remove_replacement decoded = filter (\<lambda>c. c \<noteq> 0xFFFD) decoded"

text \<open>
  The body of the \<open>try\<close> block. The source compares
  \<open>replacementCount < decoded.length * 0.2\<close> in floating point; for a string of fewer
  than \<open>2^49\<close> code units the product is off its exact value by less than the distance
  to the next integer, and the test is \<open>5 * replacementCount < decoded.length\<close>.
\<close>

definition decodeBinaryContent_body :: "(byte list \<Rightarrow> exn + byte list) \<Rightarrow> byte list \<Rightarrow> exn + jsstring" where
  "decodeBinaryContent_body fzstd data =
     (if has_zstd_magic data then
        (case fzstd data of
           Inl e \<Rightarrow> Inl e
         | Inr decompressed \<Rightarrow> Inr (toString_utf8 decompressed))
      else
        (let decoded = toString_utf8 data in
         if 5 * replacementCount decoded < length decoded then Inr (remove_replacement decoded)
         else Inr (latin1 data)))"

definition decodeBinaryContent :: "(byte list \<Rightarrow> exn + byte list) \<Rightarrow> byte list \<Rightarrow> exn + jsstring" where
  "decodeBinaryContent fzstd data =
     (if data = [] then Inr []
      else try_catch (decodeBinaryContent_body fzstd data) (\<lambda>e. Inr []))"

definition decodeMaybeCompressed ::
    "(byte list \<Rightarrow> exn + byte list) \<Rightarrow> (jsstring \<Rightarrow> byte list) \<Rightarrow> jsvalue \<Rightarrow> exn + jsstring" where
  "decodeMaybeCompressed fzstd base64 raw =
     (case raw of
        JString s \<Rightarrow>
          (if s = [] then Inr []
           else if looksLikeHex s \<and> Buffer_from_hex s \<noteq> []
             then decodeBinaryContent fzstd (Buffer_from_hex s)
           else if looksLikeBase64 s
             then try_catch (decodeBinaryContent fzstd (base64 s)) (\<lambda>e. Inr s)
           else Inr s)
      | _ \<Rightarrow> Inr [])"

definition decodeMessageContent ::
    "(byte list \<Rightarrow> exn + byte list) \<Rightarrow> (jsstring \<Rightarrow> byte list) \<Rightarrow> jsvalue \<Rightarrow> jsvalue
      \<Rightarrow> exn + jsstring" where
  "decodeMessageContent fzstd base64 messageContent compressContent =
     (case decodeMaybeCompressed fzstd base64 compressContent of
        Inl e \<Rightarrow> Inl e
      | Inr content \<Rightarrow>
          (if content = [] then decodeMaybeCompressed fzstd base64 messageContent
           else Inr content))"

section \<open>Collected messages and their order\<close>

text \<open>
  One element of \<open>collected.rows\<close>, as \<open>collectMessages\<close> pushes it. The numbers are
  the integers \<open>parseInt\<close> reads from the row.
\<close>

record message =
  localId :: int
  createTime :: int
  localType :: int
  content :: jsstring
  senderUsername :: jsstring
  isSend :: bool
  imageMd5 :: "jsstring option"
  imageDatName :: "jsstring option"
  emojiCdnUrl :: "jsstring option"
  emojiMd5 :: "jsstring option"





section \<open>Members\<close>

record ChatLabMember =
  platformId :: jsstring
  accountName :: jsstring
  groupNickname :: "jsstring option"
  avatar :: "jsstring option"

text \<open>A value of \<open>memberSet\<close>: \<open>{ member, avatarUrl? }\<close>.\<close>

record member_info =
  member :: ChatLabMember
  avatarUrl :: "jsstring option"

text \<open>
  A JavaScript \<open>Map\<close> keeps its keys in the order of their first insertion:
  an association list in which \<open>set\<close> replaces the value of a key that is there and
  appends a new key.
\<close>

type_synonym ('k, 'v) jsmap = "('k \<times> 'v) list"

definition Map_get :: "('k, 'v) jsmap \<Rightarrow> 'k \<Rightarrow> 'v option" where
  "Map_get m k = map_of m k"

fun Map_set :: "('k, 'v) jsmap \<Rightarrow> 'k \<Rightarrow> 'v \<Rightarrow> ('k, 'v) jsmap" where
  "Map_set [] k v = [(k, v)]"
| "Map_set ((k', v') # m) k v =
     (if k' = k then (k, v) # m else (k', v') # Map_set m k v)"

text \<open>Truthiness of an optional string: \<open>undefined\<close> and \<open>''\<close> are falsy.\<close>

definition truthy :: "jsstring option \<Rightarrow> bool" where
  "truthy v = (case v of None \<Rightarrow> False | Some s \<Rightarrow> s \<noteq> [])"

text \<open>\<open>a || b\<close> on optional strings.\<close>

definition or_opt :: "jsstring option \<Rightarrow> jsstring option \<Rightarrow> jsstring option" where
  "or_opt a b = (if truthy a then a else b)"

section \<open>ChatLab messages\<close>




section \<open>Roster merge\<close>

subsection \<open>cleanAccountDirName\<close>

text \<open>\<open>/^(wxid_[^_]+)/i\<close>\<close>

definition re_wxid :: re where
  "re_wxid = seqs [Bol, Grp 1 (seqs [Lit ''wxid_'', Plus True (Cls True [CChar (ch CHR ''_'')])])]"

text \<open>\<open>/^(.+)_([a-zA-Z0-9]{4})$/\<close>\<close>

definition alnum :: re where
  "alnum = Cls False [CRange (ch CHR ''a'') (ch CHR ''z''), CRange (ch CHR ''A'') (ch CHR ''Z''),
                      CRange (ch CHR ''0'') (ch CHR ''9'')]"

definition re_suffix :: re where
  "re_suffix = seqs [Bol, Grp 1 (Plus True Dot), Lit ''_'',
                     Grp 2 (seqs [alnum, alnum, alnum, alnum]), Eol]"

definition cleanAccountDirName :: "jsstring \<Rightarrow> jsstring" where
  "cleanAccountDirName dirName =
     (let trimmed = trim dirName in
      if trimmed = [] then trimmed
      else if startsWith (toLowerCase trimmed) (asc ''wxid_'') then
        (case exec1 True re_wxid trimmed of Some m \<Rightarrow> m | None \<Rightarrow> trimmed)
      else
        (case exec1 False re_suffix trimmed of Some m \<Rightarrow> m | None \<Rightarrow> trimmed))"

subsection \<open>mergeGroupMembers\<close>

text \<open>An element of \<open>result.members\<close>.\<close>

record raw_member =
  rm_username :: "jsstring option"
  rm_avatarUrl :: "jsstring option"
  rm_nickname :: "jsstring option"
  rm_displayName :: "jsstring option"
  rm_remark :: "jsstring option"
  rm_originalName :: "jsstring option"

text \<open>
  The collaborators of the merge, as they answer: \<open>getGroupMembers\<close> gives the roster
  or \<open>None\<close> (no success, or no \<open>members\<close>); \<open>getDisplayNames\<close> and
  \<open>getAvatarUrls\<close> are asked for a list of names and give a table or \<open>None\<close>
  (no success, or no \<open>map\<close>). An entry of a table may be missing or empty.
\<close>

record wcdb =
  getGroupMembers :: "jsstring \<Rightarrow> raw_member list option"
  getDisplayNames :: "jsstring list \<Rightarrow> (jsstring \<Rightarrow> jsstring option) option"
  getAvatarUrls :: "jsstring list \<Rightarrow> (jsstring \<Rightarrow> jsstring option) option"

text \<open>\<open>lookupUsernames.add(x)\<close> on a \<open>Set\<close>, which keeps the order of insertion.\<close>

definition Set_add :: "jsstring list \<Rightarrow> jsstring \<Rightarrow> jsstring list" where
  "Set_add xs x = (if x \<in> set xs then xs else xs @ [x])"

fun lookupUsernames :: "jsstring list \<Rightarrow> jsstring list \<Rightarrow> jsstring list" where
  "lookupUsernames acc [] = acc"
| "lookupUsernames acc (username # rest) =
     (let acc1 = Set_add acc username;
          cleaned = cleanAccountDirName username
      in lookupUsernames
           (if cleaned \<noteq> [] \<and> cleaned \<noteq> username then Set_add acc1 cleaned else acc1) rest)"

text \<open>\<open>a || s\<close> for an optional string and a string.\<close>

definition or_str :: "jsstring option \<Rightarrow> jsstring \<Rightarrow> jsstring" where
  "or_str a s = (case a of None \<Rightarrow> s | Some t \<Rightarrow> if t = [] then s else t)"

text \<open>
  \<open>table[username] || (cleaned ? table[cleaned] : undefined)\<close>, the start of both
  lookups.
\<close>

definition lookup_both :: "(jsstring \<Rightarrow> jsstring option) \<Rightarrow> jsstring \<Rightarrow> jsstring
    \<Rightarrow> jsstring option" where
  "lookup_both table username cleaned =
     or_opt (table username) (if cleaned \<noteq> [] then table cleaned else None)"

text \<open>One turn of the loop over \<open>rawMembers\<close>, for a member with a username.\<close>

definition merge_member :: "(jsstring \<Rightarrow> jsstring option) option
    \<Rightarrow> (jsstring \<Rightarrow> jsstring option) option \<Rightarrow> bool \<Rightarrow> raw_member \<Rightarrow> jsstring
    \<Rightarrow> (jsstring, member_info) jsmap \<Rightarrow> (jsstring, member_info) jsmap" where
  "merge_member displayNames avatarUrls includeAvatars rm username memberSet =
     (let cleaned = cleanAccountDirName username;
          displayName = (case displayNames of
                           Some table \<Rightarrow> or_str (lookup_both table username cleaned) username
                         | None \<Rightarrow> username);
          nick = or_opt (or_opt (or_opt (rm_nickname rm) (rm_displayName rm)) (rm_remark rm))
                   (rm_originalName rm);
          avatarUrl' = (case (if includeAvatars then avatarUrls else None) of
                          Some table \<Rightarrow>
                            or_opt (lookup_both table username cleaned) (rm_avatarUrl rm)
                        | None \<Rightarrow> rm_avatarUrl rm)
      in case Map_get memberSet username of
           Some existing \<Rightarrow>
             (let m0 = member existing;
                  m1 = (if displayName \<noteq> [] \<and> accountName m0 = platformId m0
                           \<and> displayName \<noteq> platformId m0
                        then m0\<lparr>accountName := displayName\<rparr> else m0);
                  m2 = (if truthy nick \<and> \<not> truthy (groupNickname m1)
                        then m1\<lparr>groupNickname := nick\<rparr> else m1);
                  e1 = existing\<lparr>member := m2\<rparr>;
                  e2 = (if \<not> truthy (avatarUrl e1) \<and> truthy avatarUrl'
                        then e1\<lparr>avatarUrl := avatarUrl'\<rparr> else e1)
              in Map_set memberSet username e2)
         | None \<Rightarrow>
             (let m0 = \<lparr>platformId = username, accountName = displayName,
                        groupNickname = None, avatar = None\<rparr>;
                  m1 = (if truthy nick then m0\<lparr>groupNickname := nick\<rparr> else m0)
              in Map_set memberSet username \<lparr>member = m1, avatarUrl = avatarUrl'\<rparr>))"

text \<open>The loop; \<open>if (!username) continue\<close> skips a member without a name.\<close>

fun merge_loop :: "(jsstring \<Rightarrow> jsstring option) option
    \<Rightarrow> (jsstring \<Rightarrow> jsstring option) option \<Rightarrow> bool \<Rightarrow> raw_member list
    \<Rightarrow> (jsstring, member_info) jsmap \<Rightarrow> (jsstring, member_info) jsmap" where
  "merge_loop displayNames avatarUrls includeAvatars [] memberSet = memberSet"
| "merge_loop displayNames avatarUrls includeAvatars (rm # rest) memberSet =
     (case rm_username rm of
        None \<Rightarrow> merge_loop displayNames avatarUrls includeAvatars rest memberSet
      | Some username \<Rightarrow>
          (if username = [] then merge_loop displayNames avatarUrls includeAvatars rest memberSet
           else merge_loop displayNames avatarUrls includeAvatars rest
                  (merge_member displayNames avatarUrls includeAvatars rm username memberSet)))"

text \<open>\<open>rawMembers.map((member) => member.username).filter(Boolean)\<close>\<close>

definition roster_usernames :: "raw_member list \<Rightarrow> jsstring list" where
  "roster_usernames rawMembers =
     concat (map (\<lambda>rm. case rm_username rm of
                          None \<Rightarrow> []
                        | Some u \<Rightarrow> if u = [] then [] else [u]) rawMembers)"

definition mergeGroupMembers :: "wcdb \<Rightarrow> jsstring \<Rightarrow> (jsstring, member_info) jsmap \<Rightarrow> bool
    \<Rightarrow> (jsstring, member_info) jsmap" where
  "mergeGroupMembers db chatroomId memberSet includeAvatars =
     (case getGroupMembers db chatroomId of
        None \<Rightarrow> memberSet
      | Some rawMembers \<Rightarrow>
          (if rawMembers = [] \<or> roster_usernames rawMembers = [] then memberSet
           else
             (let names = lookupUsernames [] (roster_usernames rawMembers) in
              merge_loop (getDisplayNames db names) (getAvatarUrls db names) includeAvatars
                rawMembers memberSet)))"

section \<open>Files and the network\<close>

text \<open>
  What the export reads and changes outside itself: the files and directories by path,
  the paths at which creating or writing fails (the call throws), and, for the
  statements about repeated work, the paths of the files materialised so far, in order:
  every \<open>writeFileSync\<close>, \<open>copyFileSync\<close> and download appends its target.
\<close>

record world =
  files :: "jsstring \<Rightarrow> byte list option"
  dirs :: "jsstring \<Rightarrow> bool"
  unwritable :: "jsstring \<Rightarrow> bool"
  written :: "jsstring list"

definition existsSync :: "world \<Rightarrow> jsstring \<Rightarrow> bool" where
  "existsSync w p = (case files w p of Some data \<Rightarrow> True | None \<Rightarrow> dirs w p)"

text \<open>\<open>fs.mkdirSync(p, { recursive: true })\<close>\<close>

definition mkdirSync :: "world \<Rightarrow> jsstring \<Rightarrow> exn + world" where
  "mkdirSync w p = (if unwritable w p then Inl IOError else Inr (w\<lparr>dirs := (dirs w)(p := True)\<rparr>))"

definition writeFileSync :: "world \<Rightarrow> jsstring \<Rightarrow> byte list \<Rightarrow> exn + world" where
  "writeFileSync w p data =
     (if unwritable w p then Inl IOError
      else Inr (w\<lparr>files := (files w)(p \<mapsto> data), written := written w @ [p]\<rparr>))"

definition copyFileSync :: "world \<Rightarrow> jsstring \<Rightarrow> jsstring \<Rightarrow> exn + world" where
  "copyFileSync w src dest =
     (case files w src of
        None \<Rightarrow> Inl IOError
      | Some data \<Rightarrow> writeFileSync w dest data)"

text \<open>\<open>path.join(a, b)\<close> for the plain segments the source joins.\<close>

definition path_join :: "jsstring \<Rightarrow> jsstring \<Rightarrow> jsstring" where
  "path_join a b = a @ asc ''/'' @ b"

text \<open>\<open>String(n)\<close> for an integer.\<close>

function dec_digits :: "nat \<Rightarrow> jsstring" where
  "dec_digits n = (if n < 10 then [0x30 + n] else dec_digits (n div 10) @ [0x30 + n mod 10])"
  by pat_completeness auto
termination
  by (relation "measure id") auto

definition String_of_int :: "int \<Rightarrow> jsstring" where
  "String_of_int i = (if i < 0 then asc ''-'' @ dec_digits (nat (- i)) else dec_digits (nat i))"

text \<open>
  What \<open>protocol.get(url, ...)\<close> comes to for a URL: the call throws (a URL it cannot
  read), the request ends in an \<open>error\<close> or a \<open>timeout\<close> event, or a response arrives
  with its status, its \<open>location\<close> header and its body.
\<close>

datatype http_outcome =
    GetThrows
  | ErrorEvent
  | TimeoutEvent
  | Response nat "jsstring option" "byte list"

text \<open>
  \<open>downloadFile\<close>. A response 301 or 302 with a location is followed by calling
  \<open>downloadFile\<close> again, with nothing that counts the calls; the function therefore
  need not return, and \<open>None\<close> is the download that never resolves. A response 200 is
  piped to the file.
\<close>

partial_function (option) downloadFile ::
    "(jsstring \<Rightarrow> http_outcome) \<Rightarrow> jsstring \<Rightarrow> jsstring \<Rightarrow> world \<Rightarrow> (bool \<times> world) option" where
  "downloadFile net url destPath w =
     (case net url of
        GetThrows \<Rightarrow> Some (False, w)
      | ErrorEvent \<Rightarrow> Some (False, w)
      | TimeoutEvent \<Rightarrow> Some (False, w)
      | Response statusCode location body \<Rightarrow>
          (if (statusCode = 301 \<or> statusCode = 302) \<and> truthy location then
             (case location of
                Some redirectUrl \<Rightarrow> downloadFile net redirectUrl destPath w
              | None \<Rightarrow> Some (False, w))
           else if statusCode \<noteq> 200 then Some (False, w)
           else
             (case writeFileSync w destPath body of
                Inl e \<Rightarrow> Some (False, w)
              | Inr w' \<Rightarrow> Some (True, w'))))"

text \<open>
  \<open>downloadToBuffer\<close>, the download of the avatars: it follows a response 3xx with a
  location only while \<open>remainingRedirects\<close> is positive, and starts with 2.
  \<open>resolve\<close> is \<open>new URL(location, url).href\<close>. \<open>Inl\<close> is a rejected promise,
  \<open>Inr None\<close> is \<open>null\<close>.
\<close>

fun downloadToBuffer :: "(jsstring \<Rightarrow> http_outcome) \<Rightarrow> (jsstring \<Rightarrow> jsstring \<Rightarrow> jsstring)
    \<Rightarrow> jsstring \<Rightarrow> nat \<Rightarrow> exn + byte list option" where
  "downloadToBuffer net resolve url remainingRedirects =
     (case net url of
        GetThrows \<Rightarrow> Inl IOError
      | ErrorEvent \<Rightarrow> Inr None
      | TimeoutEvent \<Rightarrow> Inr None
      | Response status location body \<Rightarrow>
          (case (if 300 \<le> status \<and> status < 400 \<and> truthy location then location else None) of
             Some loc \<Rightarrow>
               (case remainingRedirects of
                  Suc n \<Rightarrow> downloadToBuffer net resolve (resolve loc url) n
                | 0 \<Rightarrow> if status < 200 \<or> 300 \<le> status then Inr None else Inr (Some body))
           | None \<Rightarrow> if status < 200 \<or> 300 \<le> status then Inr None else Inr (Some body)))"

section \<open>Media extractor\<close>

datatype media_kind = Image | Voice | Emoji

record MediaExportItem =
  relativePath :: jsstring
  kind :: media_kind

text \<open>The answer of \<open>decryptImage\<close> and of \<open>resolveCachedImage\<close>.\<close>

record image_result =
  ir_success :: bool
  ir_localPath :: "jsstring option"

text \<open>The answer of \<open>chatService.getVoiceData\<close>: \<open>data\<close> is the base64 of a wav file.\<close>

record voice_result =
  vr_success :: bool
  vr_data :: "jsstring option"

text \<open>
  The collaborators of the extractor and the functions of the platform it calls. A
  collaborator may reject (\<open>Inl\<close>); \<open>fileURLToPath\<close> throws on a URL that is not a
  file URL; \<open>Buffer_from_base64\<close> is \<open>Buffer.from(s, 'base64')\<close>.
\<close>

record services =
  decryptImage :: "jsstring \<Rightarrow> jsstring option \<Rightarrow> jsstring option \<Rightarrow> exn + image_result"
  resolveCachedImage :: "jsstring \<Rightarrow> jsstring option \<Rightarrow> jsstring option \<Rightarrow> exn + image_result"
  getVoiceData :: "jsstring \<Rightarrow> jsstring \<Rightarrow> exn + voice_result"
  fileURLToPath :: "jsstring \<Rightarrow> exn + jsstring"
  path_extname :: "jsstring \<Rightarrow> jsstring"
  Buffer_from_base64 :: "jsstring \<Rightarrow> byte list"
  http_get :: "jsstring \<Rightarrow> http_outcome"

definition getExtFromDataUrl :: "jsstring \<Rightarrow> jsstring" where
  "getExtFromDataUrl dataUrl =
     (if includes_str dataUrl (asc ''image/png'') then asc ''.png''
      else if includes_str dataUrl (asc ''image/gif'') then asc ''.gif''
      else if includes_str dataUrl (asc ''image/webp'') then asc ''.webp''
      else asc ''.jpg'')"

text \<open>\<open>s.split(',')[1]\<close>: what stands between the first comma and the next, if any.\<close>

definition split_comma_second :: "jsstring \<Rightarrow> jsstring option" where
  "split_comma_second s =
     (case dropWhile (\<lambda>c. c \<noteq> ch CHR '','') s of
        [] \<Rightarrow> None
      | comma # rest \<Rightarrow> Some (takeWhile (\<lambda>c. c \<noteq> ch CHR '','') rest))"

text \<open>\<open>if (!fs.existsSync(dir)) fs.mkdirSync(dir, { recursive: true })\<close>\<close>

definition ensure_dir :: "world \<Rightarrow> jsstring \<Rightarrow> exn + world" where
  "ensure_dir w dir = (if existsSync w dir then Inr w else mkdirSync w dir)"

text \<open>\<open>`${imageMd5 || imageDatName || msg.localId}`\<close>\<close>

definition image_key :: "message \<Rightarrow> jsstring" where
  "image_key msg = or_str (imageMd5 msg) (or_str (imageDatName msg) (String_of_int (localId msg)))"

text \<open>
  The body of the \<open>try\<close> block of \<open>exportImage\<close>: the item or \<open>null\<close>, and the world
  it leaves; what is thrown is \<open>Inl\<close>, with the world at that point.
\<close>

definition exportImage_body :: "services \<Rightarrow> message \<Rightarrow> jsstring \<Rightarrow> jsstring \<Rightarrow> world
    \<Rightarrow> (exn + MediaExportItem option) \<times> world" where
  "exportImage_body sv msg sessionId mediaDir w0 =
     (let imagesDir = path_join (path_join mediaDir (asc ''media'')) (asc ''images'') in
      case ensure_dir w0 imagesDir of
        Inl e \<Rightarrow> (Inl e, w0)
      | Inr w \<Rightarrow>
          if \<not> truthy (imageMd5 msg) \<and> \<not> truthy (imageDatName msg) then (Inr None, w)
          else
            (case decryptImage sv sessionId (imageMd5 msg) (imageDatName msg) of
               Inl e \<Rightarrow> (Inl e, w)
             | Inr result \<Rightarrow>
                 (case (if ir_success result \<and> truthy (ir_localPath result)
                        then Inr (ir_localPath result)
                        else (case resolveCachedImage sv sessionId (imageMd5 msg)
                                     (imageDatName msg) of
                                Inl e \<Rightarrow> Inl e
                              | Inr thumb \<Rightarrow>
                                  Inr (if ir_success thumb \<and> truthy (ir_localPath thumb)
                                       then ir_localPath thumb else None))) of
                    Inl e \<Rightarrow> (Inl e, w)
                  | Inr None \<Rightarrow> (Inr None, w)
                  | Inr (Some sourcePath) \<Rightarrow>
                      if startsWith sourcePath (asc ''data:'') then
                        (case split_comma_second sourcePath of
                           None \<Rightarrow> (Inl TypeError, w)
                         | Some base64Data \<Rightarrow>
                             (let fileName = image_key msg @ getExtFromDataUrl sourcePath;
                                  destPath = path_join imagesDir fileName
                              in case writeFileSync w destPath (Buffer_from_base64 sv base64Data) of
                                   Inl e \<Rightarrow> (Inl e, w)
                                 | Inr w' \<Rightarrow>
                                     (Inr (Some \<lparr>relativePath = asc ''media/images/'' @ fileName,
                                                 kind = Image\<rparr>), w')))
                      else
                        (case (if startsWith sourcePath (asc ''file://'')
                               then fileURLToPath sv sourcePath else Inr sourcePath) of
                           Inl e \<Rightarrow> (Inl e, w)
                         | Inr path \<Rightarrow>
                             if existsSync w path then
                               (let ext = or_else (path_extname sv path) (asc ''.jpg'');
                                    fileName = image_key msg @ ext;
                                    destPath = path_join imagesDir fileName
                                in case (if \<not> existsSync w destPath
                                         then copyFileSync w path destPath else Inr w) of
                                     Inl e \<Rightarrow> (Inl e, w)
                                   | Inr w' \<Rightarrow>
                                       (Inr (Some \<lparr>relativePath = asc ''media/images/'' @ fileName,
                                                   kind = Image\<rparr>), w'))
                             else (Inr None, w)))))"

text \<open>\<open>try { ... } catch (e) { return null }\<close>\<close>

definition catch_null :: "(exn + 'a option) \<times> world \<Rightarrow> 'a option \<times> world" where
  "catch_null r = (case r of (Inl e, w) \<Rightarrow> (None, w) | (Inr v, w) \<Rightarrow> (v, w))"

definition exportImage :: "services \<Rightarrow> message \<Rightarrow> jsstring \<Rightarrow> jsstring \<Rightarrow> world
    \<Rightarrow> MediaExportItem option \<times> world" where
  "exportImage sv msg sessionId mediaDir w = catch_null (exportImage_body sv msg sessionId mediaDir w)"

text \<open>The body of the \<open>try\<close> block of \<open>exportVoice\<close>.\<close>

definition exportVoice_body :: "services \<Rightarrow> message \<Rightarrow> jsstring \<Rightarrow> jsstring \<Rightarrow> world
    \<Rightarrow> (exn + MediaExportItem option) \<times> world" where
  "exportVoice_body sv msg sessionId mediaDir w0 =
     (let voicesDir = path_join (path_join mediaDir (asc ''media'')) (asc ''voices'') in
      case ensure_dir w0 voicesDir of
        Inl e \<Rightarrow> (Inl e, w0)
      | Inr w \<Rightarrow>
          (let msgId = String_of_int (localId msg);
               fileName = asc ''voice_'' @ msgId @ asc ''.wav'';
               destPath = path_join voicesDir fileName;
               item = \<lparr>relativePath = asc ''media/voices/'' @ fileName, kind = Voice\<rparr>
           in if existsSync w destPath then (Inr (Some item), w)
              else
                (case getVoiceData sv sessionId msgId of
                   Inl e \<Rightarrow> (Inl e, w)
                 | Inr voiceResult \<Rightarrow>
                     (case (if vr_success voiceResult \<and> truthy (vr_data voiceResult)
                            then vr_data voiceResult else None) of
                        None \<Rightarrow> (Inr None, w)
                      | Some data \<Rightarrow>
                          (case writeFileSync w destPath (Buffer_from_base64 sv data) of
                             Inl e \<Rightarrow> (Inl e, w)
                           | Inr w' \<Rightarrow> (Inr (Some item), w'))))))"

definition exportVoice :: "services \<Rightarrow> message \<Rightarrow> jsstring \<Rightarrow> jsstring \<Rightarrow> world
    \<Rightarrow> MediaExportItem option \<times> world" where
  "exportVoice sv msg sessionId mediaDir w = catch_null (exportVoice_body sv msg sessionId mediaDir w)"

text \<open>The extension \<open>exportEmoji\<close> reads from the URL.\<close>

definition emoji_ext :: "jsstring option \<Rightarrow> jsstring" where
  "emoji_ext emojiUrl =
     (case (if truthy emojiUrl then emojiUrl else None) of
        None \<Rightarrow> asc ''.gif''
      | Some url \<Rightarrow>
          (if includes_str url (asc ''.png'') then asc ''.png''
           else if includes_str url (asc ''.jpg'') \<or> includes_str url (asc ''.jpeg'') then asc ''.jpg''
           else asc ''.gif''))"

text \<open>
  \<open>exportEmoji\<close>. \<open>None\<close> is the call that never returns, because its download does
  not; otherwise the item or \<open>null\<close>, and the world it leaves.
\<close>

definition exportEmoji :: "services \<Rightarrow> message \<Rightarrow> jsstring \<Rightarrow> jsstring \<Rightarrow> world
    \<Rightarrow> (MediaExportItem option \<times> world) option" where
  "exportEmoji sv msg sessionId mediaDir w0 =
     (let emojisDir = path_join (path_join mediaDir (asc ''media'')) (asc ''emojis'') in
      case ensure_dir w0 emojisDir of
        Inl e \<Rightarrow> Some (None, w0)
      | Inr w \<Rightarrow>
          if \<not> truthy (emojiCdnUrl msg) \<and> \<not> truthy (emojiMd5 msg) then Some (None, w)
          else
            (let key = or_str (emojiMd5 msg) (String_of_int (localId msg));
                 fileName = key @ emoji_ext (emojiCdnUrl msg);
                 destPath = path_join emojisDir fileName;
                 item = \<lparr>relativePath = asc ''media/emojis/'' @ fileName, kind = Emoji\<rparr>
             in if existsSync w destPath then Some (Some item, w)
                else
                  (case (if truthy (emojiCdnUrl msg) then emojiCdnUrl msg else None) of
                     None \<Rightarrow> Some (None, w)
                   | Some emojiUrl \<Rightarrow>
                       (case downloadFile (http_get sv) emojiUrl destPath w of
                          None \<Rightarrow> None
                        | Some (downloaded, w') \<Rightarrow>
                            Some (if downloaded then Some item else None, w')))))"

text \<open>The options of \<open>exportMediaForMessage\<close>; an option that is not set is \<open>False\<close>.\<close>

record media_options =
  exportImages :: bool
  exportVoices :: bool
  exportEmojis :: bool
  exportVoiceAsText :: bool

definition exportMediaForMessage :: "services \<Rightarrow> message \<Rightarrow> jsstring \<Rightarrow> jsstring
    \<Rightarrow> media_options \<Rightarrow> world \<Rightarrow> (MediaExportItem option \<times> world) option" where
  "exportMediaForMessage sv msg sessionId mediaDir opts w =
     (if localType msg = 3 \<and> exportImages opts then Some (exportImage sv msg sessionId mediaDir w)
      else if localType msg = 34 \<and> exportVoiceAsText opts then Some (None, w)
      else if localType msg = 34 \<and> exportVoices opts then
        Some (exportVoice sv msg sessionId mediaDir w)
      else if localType msg = 47 \<and> exportEmojis opts then exportEmoji sv msg sessionId mediaDir w
      else Some (None, w))"

section \<open>Batch export\<close>

datatype export_format = Chatlab | ChatlabJsonl | Json | Html | Txt | Excel | Sql

datatype export_phase = Preparing | Exporting | Writing | Complete












section \<open>What a merge may change\<close>

text \<open>
  \<open>keeps e e'\<close>: the entry \<open>e'\<close> has the identifier of \<open>e\<close>, its account name if that
  was not the identifier any more, and its nickname and avatar if it had them.
\<close>

definition keeps :: "member_info \<Rightarrow> member_info \<Rightarrow> bool" where
  "keeps e e' =
     (platformId (member e') = platformId (member e)
      \<and> (accountName (member e) \<noteq> platformId (member e)
           \<longrightarrow> accountName (member e') = accountName (member e))
      \<and> (truthy (groupNickname (member e))
           \<longrightarrow> groupNickname (member e') = groupNickname (member e))
      \<and> (truthy (avatarUrl e) \<longrightarrow> avatarUrl e' = avatarUrl e))"

section \<open>When the steps of the batch loop succeed\<close>


section \<open>Inputs of the examples\<close>



text \<open>A constructor that refuses every source; the examples that use it build no pattern.\<close>

definition RegExp_refusing :: "jsstring \<Rightarrow> exn + re" where
  "RegExp_refusing source = Inl SyntaxError"

text \<open>
  A member whose name was resolved when her message was read, and a roster that gives
  her another name, a nickname and no avatar.
\<close>

definition example_alice :: member_info where
  "example_alice =
     \<lparr>member = \<lparr>platformId = asc ''wxid_alice'', accountName = asc ''Alice'',
                 groupNickname = None, avatar = None\<rparr>,
      avatarUrl = None\<rparr>"

definition example_memberSet :: "(jsstring, member_info) jsmap" where
  "example_memberSet = [(asc ''wxid_alice'', example_alice)]"

definition example_db :: wcdb where
  "example_db =
     \<lparr>getGroupMembers = (\<lambda>room. Some [\<lparr>rm_username = Some (asc ''wxid_alice''),
                                         rm_avatarUrl = None, rm_nickname = Some (asc ''Ali''),
                                         rm_displayName = None, rm_remark = None,
                                         rm_originalName = None\<rparr>]),
      getDisplayNames = (\<lambda>names. Some (\<lambda>u. if u = asc ''wxid_alice''
                                               then Some (asc ''Alice of the roster'') else None)),
      getAvatarUrls = (\<lambda>names. None)\<rparr>"

text \<open>A decompressor that reads no frame, and a base64 reader for inputs that are not base64.\<close>

definition fzstd_failing :: "byte list \<Rightarrow> exn + byte list" where
  "fzstd_failing data = Inl DecompressError"

definition base64_none :: "jsstring \<Rightarrow> byte list" where
  "base64_none s = []"

text \<open>The zstd magic followed by a byte that starts no frame.\<close>

definition truncated_frame :: "byte list" where
  "truncated_frame = [0x28, 0xB5, 0x2F, 0xFD, 0x00]"

text \<open>The bytes of \<open>abcde\<close> and of \<open>abcd\<close>, each followed by the byte \<open>FF\<close>.\<close>

definition one_bad_in_six :: "byte list" where
  "one_bad_in_six = [0x61, 0x62, 0x63, 0x64, 0x65, 0xFF]"

definition one_bad_in_five :: "byte list" where
  "one_bad_in_five = [0x61, 0x62, 0x63, 0x64, 0xFF]"

section \<open>Inputs of the examples of the media extractor\<close>

text \<open>
  An image message whose decrypted image comes back as a data URL, an emoji message
  with a URL, a world with no file
  yet, and the services of the example: every URL answers 302 with the location
  \<open>http://cdn.example/e\<close>, this one too.
\<close>

definition example_image_message :: message where
  "example_image_message =
     \<lparr>localId = 7, createTime = 5, localType = 3, content = asc ''<img md5=\"abc\"/>'',
      senderUsername = asc ''wxid_alice'', isSend = False, imageMd5 = Some (asc ''abc''),
      imageDatName = None, emojiCdnUrl = None, emojiMd5 = None\<rparr>"

definition example_emoji_message :: message where
  "example_emoji_message =
     \<lparr>localId = 8, createTime = 6, localType = 47, content = asc ''<emoji/>'',
      senderUsername = asc ''wxid_alice'', isSend = False, imageMd5 = None,
      imageDatName = None, emojiCdnUrl = Some (asc ''http://cdn.example/e''),
      emojiMd5 = Some (asc ''e1'')\<rparr>"

definition redirect_loop :: "jsstring \<Rightarrow> http_outcome" where
  "redirect_loop url = Response 302 (Some (asc ''http://cdn.example/e'')) []"

definition example_services :: services where
  "example_services =
     \<lparr>decryptImage = (\<lambda>sessionId md5 dat.
        Inr \<lparr>ir_success = True, ir_localPath = Some (asc ''data:image/png;base64,AAAA'')\<rparr>),
      resolveCachedImage = (\<lambda>sessionId md5 dat. Inr \<lparr>ir_success = False, ir_localPath = None\<rparr>),
      getVoiceData = (\<lambda>sessionId msgId. Inr \<lparr>vr_success = False, vr_data = None\<rparr>),
      fileURLToPath = (\<lambda>url. Inl TypeError),
      path_extname = (\<lambda>path. []),
      Buffer_from_base64 = base64_none,
      http_get = redirect_loop\<rparr>"

definition empty_world :: world where
  "empty_world = \<lparr>files = (\<lambda>p. None), dirs = (\<lambda>p. False), unwritable = (\<lambda>p. False), written = []\<rparr>"

section \<open>Inputs of the examples of the batch export\<close>





section \<open>Evaluation\<close>

text \<open>The defining equations that evaluate the parser on a given string.\<close>

lemmas regex_eval =
  exec1_def test_def replace_first_def group_def substring_def Lit_def AnyChar_def Dot_def
  Digit_def Plus_def cdata_group_def cls_match_def canon_def asc_def ch_def
  isWhiteSpace_def isLineTerminator_def trim_def

lemmas parser_eval =
  parseMessageContent_def convertMessageType_def MESSAGE_TYPE_MAP_def extractXmlValue_def
  re_tag_value_def re_type_def strip_cdata_def re_cdata_open_def re_cdata_close_def
  or_else_def parseVoipMessage_def parseVoipMessage_body_def try_catch_def re_msg_def
  re_room_type_def re_duration_def call_label_def parseDigits_def stripSenderPrefix_def
  re_sender_prefix_def cleanSystemMessage_def re_sysmsg_def re_replacemsg_def
  re_template_def re_placeholder_def re_any_tag_def re_img_def re_xml_tag_def
  re_spaces_def pat_var_def var_pattern_def

lemmas label_eval =
  lbl_image_def lbl_voice_def lbl_card_def lbl_video_def lbl_emoji_def lbl_location_def
  lbl_link_def lbl_quote_def lbl_system_def lbl_call_def zh_video_call_def
  zh_voice_call_def zh_call_def zh_duration_def zh_answered_def zh_no_answer_def
  zh_cancelled_def zh_elsewhere_ta_def zh_elsewhere_def zh_peer_declined_def
  zh_declined_def zh_busy_unanswered_def zh_busy_def zh_unanswered_def

section \<open>Examples of the parser\<close>



text \<open>
  The status is read from the CDATA section only: the same text directly between the
  tags of \<open><msg>\<close> is not found, and the result is the bare label of the call kind.
\<close>

lemma voice_call_without_cdata:
  "parseMessageContent RegExp_new
     (asc ''<msg>'' @ zh_duration @ asc '' 01:23</msg><room_type>1</room_type>'') 50
     = Inr (Some (asc ''['' @ zh_voice_call @ asc '']''))"
  by (simp add: regex_eval parser_eval label_eval)

section \<open>The order of the exported messages\<close>










section \<open>The roster merge keeps what was resolved\<close>

lemma keeps_refl: "keeps e e"
  by (simp add: keeps_def)

lemma keeps_trans: "keeps a b \<Longrightarrow> keeps b c \<Longrightarrow> keeps a c"
  by (auto simp: keeps_def)

lemma Map_get_set:
  "Map_get (Map_set m k v) k' = (if k' = k then Some v else Map_get m k')"
  by (induction m) (auto simp: Map_get_def)

lemma merge_member_keeps:
  assumes "Map_get memberSet u = Some e"
  shows "\<exists>e'. Map_get (merge_member displayNames avatarUrls includeAvatars rm username memberSet) u
                  = Some e' \<and> keeps e e'"
proof (cases "u = username")
  case False
  with assms show ?thesis
    by (auto simp: merge_member_def Let_def Map_get_set keeps_refl split: option.splits)
next
  case True
  with assms show ?thesis
    by (auto simp: merge_member_def Let_def Map_get_set keeps_def split: option.splits)
qed

lemma merge_loop_keeps:
  "Map_get memberSet u = Some e
   \<Longrightarrow> \<exists>e'. Map_get (merge_loop displayNames avatarUrls includeAvatars rms memberSet) u = Some e'
            \<and> keeps e e'"
proof (induction rms arbitrary: memberSet e)
  case Nil
  then show ?case by (auto simp: keeps_refl)
next
  case (Cons rm rms)
  show ?case
  proof (cases "rm_username rm")
    case None
    with Cons show ?thesis by simp
  next
    case (Some username)
    show ?thesis
    proof (cases "username = []")
      case True
      with Some Cons show ?thesis by simp
    next
      case False
      from merge_member_keeps [OF Cons.prems] obtain e1 where
        e1: "Map_get (merge_member displayNames avatarUrls includeAvatars rm username memberSet) u
               = Some e1" and k1: "keeps e e1"
        by blast
      from Cons.IH [OF e1] obtain e2 where
        e2: "Map_get (merge_loop displayNames avatarUrls includeAvatars rms
               (merge_member displayNames avatarUrls includeAvatars rm username memberSet)) u
               = Some e2" and k2: "keeps e1 e2"
        by blast
      from k1 k2 have "keeps e e2" by (rule keeps_trans)
      with e2 Some False show ?thesis by simp
    qed
  qed
qed

lemma mergeGroupMembers_keeps:
  assumes "Map_get memberSet u = Some e"
  shows "\<exists>e'. Map_get (mergeGroupMembers db chatroomId memberSet includeAvatars) u = Some e'
              \<and> keeps e e'"
  using assms merge_loop_keeps [OF assms]
  by (auto simp: mergeGroupMembers_def Let_def keeps_refl split: option.splits)

text \<open>
  C5. A member that is in the member map before the merge is in it afterwards, under the
  same key and with the same \<open>platformId\<close>, whatever the roster and the two lookups
  answer (also when they fail). If its \<open>accountName\<close> differed from its
  \<open>platformId\<close>, the \<open>accountName\<close> is unchanged: it changes only where it was still
  the \<open>platformId\<close>. Its \<open>groupNickname\<close> and its \<open>avatarUrl\<close> change only where
  they were absent (\<open>undefined\<close> or the empty string, the values the source tests
  with \<open>!\<close>).
\<close>

theorem mergeGroupMembers_preserves_resolved_names:
  assumes "Map_get memberSet u = Some e"
  shows "\<exists>e'. Map_get (mergeGroupMembers db chatroomId memberSet includeAvatars) u = Some e'
           \<and> platformId (member e') = platformId (member e)
           \<and> (accountName (member e) \<noteq> platformId (member e)
                \<longrightarrow> accountName (member e') = accountName (member e))
           \<and> (groupNickname (member e') \<noteq> groupNickname (member e)
                \<longrightarrow> \<not> truthy (groupNickname (member e)))
           \<and> (avatarUrl e' \<noteq> avatarUrl e \<longrightarrow> \<not> truthy (avatarUrl e))"
  using mergeGroupMembers_keeps [OF assms, of db chatroomId includeAvatars]
  by (auto simp: keeps_def)

lemma example_alice_present:
  "Map_get example_memberSet (asc ''wxid_alice'') = Some example_alice"
  by (simp add: example_memberSet_def Map_get_def)

theorem mergeGroupMembers_preserves_resolved_names_witness:
  "Map_get example_memberSet (asc ''wxid_alice'') = Some example_alice
   \<and> accountName (member example_alice) \<noteq> platformId (member example_alice)
   \<and> (\<exists>e'. Map_get (mergeGroupMembers example_db (asc ''room@chatroom'') example_memberSet True)
                (asc ''wxid_alice'') = Some e'
             \<and> accountName (member e') = asc ''Alice'')"
  using mergeGroupMembers_preserves_resolved_names
          [OF example_alice_present, of example_db "asc ''room@chatroom''" True]
        example_alice_present
  by (auto simp: example_alice_def asc_def)

section \<open>The content decoder\<close>

lemmas decoder_eval =
  decodeMaybeCompressed_def decodeBinaryContent_def decodeBinaryContent_body_def
  decodeMessageContent_def try_catch_def has_zstd_magic_def readUInt32LE_def
  toString_utf8_def utf16_units_def replacementCount_def remove_replacement_def latin1_def
  looksLikeHex_def looksLikeBase64_def re_hex_def re_base64_def hexval_def

lemma decodeBinaryContent_total: "\<exists>s. decodeBinaryContent fzstd data = Inr s"
  by (auto simp: decodeBinaryContent_def decodeBinaryContent_body_def try_catch_def Let_def
      split: sum.splits)

lemma decodeMaybeCompressed_total: "\<exists>s. decodeMaybeCompressed fzstd base64 raw = Inr s"
proof (cases raw)
  case (JString s)
  obtain t where "decodeBinaryContent fzstd (Buffer_from_hex s) = Inr t"
    using decodeBinaryContent_total by blast
  moreover obtain t' where "decodeBinaryContent fzstd (base64 s) = Inr t'"
    using decodeBinaryContent_total by blast
  ultimately show ?thesis
    using JString by (simp add: decodeMaybeCompressed_def try_catch_def)
qed (simp_all add: decodeMaybeCompressed_def)

text \<open>
  C1. Whatever the decoder is given, and however \<open>fzstd.decompress\<close> and the
  base64 reader answer, \<open>decodeBinaryContent\<close>, \<open>decodeMaybeCompressed\<close> and
  \<open>decodeMessageContent\<close> return a string and do not throw. \<open>undefined\<close>,
  \<open>null\<close>, a value that is not a string and the empty string give the empty string.
  When something is thrown while the bytes are decoded (the decompression of a frame
  after the magic fails), the result is the empty string, whether the bytes were given
  as they are, in hex or in base64.
\<close>

theorem decoder_never_throws:
  "(\<exists>s. decodeBinaryContent fzstd data = Inr s)
   \<and> (\<exists>s. decodeMaybeCompressed fzstd base64 raw = Inr s)
   \<and> (\<exists>s. decodeMessageContent fzstd base64 messageContent compressContent = Inr s)
   \<and> decodeMaybeCompressed fzstd base64 JUndefined = Inr []
   \<and> decodeMaybeCompressed fzstd base64 JNull = Inr []
   \<and> decodeMaybeCompressed fzstd base64 JOther = Inr []
   \<and> decodeMaybeCompressed fzstd base64 (JString []) = Inr []
   \<and> (decodeBinaryContent_body fzstd data = Inl e \<longrightarrow> decodeBinaryContent fzstd data = Inr [])
   \<and> (looksLikeHex s \<and> Buffer_from_hex s \<noteq> []
          \<and> decodeBinaryContent_body fzstd (Buffer_from_hex s) = Inl e
        \<longrightarrow> decodeMaybeCompressed fzstd base64 (JString s) = Inr [])
   \<and> ((looksLikeHex s \<longrightarrow> Buffer_from_hex s = []) \<and> looksLikeBase64 s
          \<and> decodeBinaryContent_body fzstd (base64 s) = Inl e
        \<longrightarrow> decodeMaybeCompressed fzstd base64 (JString s) = Inr [])"
proof -
  have a: "\<exists>s. decodeMessageContent fzstd base64 messageContent compressContent = Inr s"
    using decodeMaybeCompressed_total [of fzstd base64 compressContent]
      decodeMaybeCompressed_total [of fzstd base64 messageContent]
    by (auto simp: decodeMessageContent_def)
  have b: "decodeBinaryContent_body fzstd data = Inl e \<longrightarrow> decodeBinaryContent fzstd data = Inr []"
    by (simp add: decodeBinaryContent_def try_catch_def)
  have c: "looksLikeHex s \<and> Buffer_from_hex s \<noteq> []
          \<and> decodeBinaryContent_body fzstd (Buffer_from_hex s) = Inl e
        \<longrightarrow> decodeMaybeCompressed fzstd base64 (JString s) = Inr []"
    by (auto simp: decodeMaybeCompressed_def decodeBinaryContent_def try_catch_def)
  have d: "(looksLikeHex s \<longrightarrow> Buffer_from_hex s = []) \<and> looksLikeBase64 s
          \<and> decodeBinaryContent_body fzstd (base64 s) = Inl e
        \<longrightarrow> decodeMaybeCompressed fzstd base64 (JString s) = Inr []"
    by (auto simp: decodeMaybeCompressed_def decodeBinaryContent_def try_catch_def)
  show ?thesis
    using decodeBinaryContent_total decodeMaybeCompressed_total a b c d
    by (simp add: decodeMaybeCompressed_def)
qed

lemma truncated_frame_hex: "Buffer_from_hex (asc ''28b52ffd00'') = truncated_frame"
  by (simp add: asc_def hexval_def ch_def truncated_frame_def)

lemma truncated_frame_nonempty: "truncated_frame \<noteq> []"
  by (simp add: truncated_frame_def)

lemma truncated_frame_looks_hex: "looksLikeHex (asc ''28b52ffd00'')"
  by (simp add: decoder_eval regex_eval)

lemma truncated_frame_throws:
  "decodeBinaryContent_body fzstd_failing truncated_frame = Inl DecompressError"
  by (simp add: decoder_eval truncated_frame_def fzstd_failing_def)

theorem decoder_never_throws_witness:
  "looksLikeHex (asc ''28b52ffd00'')
   \<and> decodeBinaryContent_body fzstd_failing (Buffer_from_hex (asc ''28b52ffd00''))
       = Inl DecompressError
   \<and> decodeMaybeCompressed fzstd_failing base64_none (JString (asc ''28b52ffd00'')) = Inr []
   \<and> decodeBinaryContent fzstd_failing truncated_frame = Inr []"
  using decoder_never_throws [of fzstd_failing truncated_frame base64_none JNull JNull JNull
          DecompressError "asc ''28b52ffd00''"]
        truncated_frame_hex truncated_frame_looks_hex truncated_frame_throws
        truncated_frame_nonempty
  by simp

lemma utf8_points_nonempty: "st \<noteq> None \<or> bs \<noteq> [] \<Longrightarrow> utf8_points st bs \<noteq> []"
  by (induction st bs rule: utf8_points.induct) (auto simp: Let_def)

text \<open>
  C7, as the source has it. For a buffer that does not begin with the magic: if the
  replacement characters are fewer than a fifth of the UTF-16 code units of the UTF-8
  decoding, the result is that decoding with every U+FFFD removed; otherwise (a fifth
  or more) it is the latin1 decoding. A decoding without U+FFFD is returned as it is.
\<close>

theorem decodeBinaryContent_without_magic:
  "\<not> has_zstd_magic data \<Longrightarrow>
   decodeBinaryContent fzstd data =
     Inr (if 5 * replacementCount (toString_utf8 data) < length (toString_utf8 data)
          then remove_replacement (toString_utf8 data) else latin1 data)
   \<and> (replacementCount (toString_utf8 data) = 0
        \<longrightarrow> decodeBinaryContent fzstd data = Inr (toString_utf8 data))"
proof -
  assume nm: "\<not> has_zstd_magic data"
  have e: "toString_utf8 [] = []"
    by (simp add: toString_utf8_def)
  have r: "replacementCount s = 0 \<Longrightarrow> remove_replacement s = s" for s
    by (induction s) (auto simp: replacementCount_def remove_replacement_def split: if_splits)
  have l: "latin1 [] = []"
    by (simp add: latin1_def)
  have main: "decodeBinaryContent fzstd data =
     Inr (if 5 * replacementCount (toString_utf8 data) < length (toString_utf8 data)
          then remove_replacement (toString_utf8 data) else latin1 data)"
    using nm by (simp add: decodeBinaryContent_def decodeBinaryContent_body_def try_catch_def
        Let_def e l replacementCount_def)
  have nonempty: "data \<noteq> [] \<Longrightarrow> toString_utf8 data \<noteq> []"
    using utf8_points_nonempty [of None data]
    by (cases "utf8_points None data") (auto simp: toString_utf8_def utf16_units_def)
  show ?thesis
  proof (cases "data = []")
    case True
    with main show ?thesis by (simp add: e l)
  next
    case False
    with main nonempty r show ?thesis by auto
  qed
qed

theorem decodeBinaryContent_without_magic_witness:
  "\<not> has_zstd_magic one_bad_in_six
   \<and> decodeBinaryContent fzstd_failing one_bad_in_six = Inr (asc ''abcde'')"
  using decodeBinaryContent_without_magic [of one_bad_in_six fzstd_failing]
  by (simp add: decoder_eval one_bad_in_six_def asc_def)

text \<open>
  C7 as claimed fails twice. Of the six code units that \<open>one_bad_in_six\<close> decodes to,
  one is U+FFFD, which is not more than 20%, and the result is not the UTF-8 decoding
  (the U+FFFD is removed). Of the five that \<open>one_bad_in_five\<close> decodes to, one is
  U+FFFD, which is not more than 20% either, and the result is the latin1 decoding.
\<close>

theorem utf8_fallback_counterexample:
  "\<not> has_zstd_magic one_bad_in_six
   \<and> \<not> 5 * replacementCount (toString_utf8 one_bad_in_six) > length (toString_utf8 one_bad_in_six)
   \<and> decodeBinaryContent fzstd_failing one_bad_in_six \<noteq> Inr (toString_utf8 one_bad_in_six)
   \<and> \<not> has_zstd_magic one_bad_in_five
   \<and> \<not> 5 * replacementCount (toString_utf8 one_bad_in_five) > length (toString_utf8 one_bad_in_five)
   \<and> decodeBinaryContent fzstd_failing one_bad_in_five \<noteq> Inr (toString_utf8 one_bad_in_five)
   \<and> decodeBinaryContent fzstd_failing one_bad_in_five = Inr (latin1 one_bad_in_five)"
  by (simp add: decoder_eval one_bad_in_six_def one_bad_in_five_def)

section \<open>Downloads and media files\<close>

lemmas media_eval =
  exportImage_def exportImage_body_def catch_null_def ensure_dir_def existsSync_def
  mkdirSync_def writeFileSync_def copyFileSync_def path_join_def image_key_def or_str_def
  or_else_def truthy_def getExtFromDataUrl_def split_comma_second_def

lemma downloadFile_returns_not_loop:
  assumes returns: "downloadFile net url destPath w = Some y"
  shows "net \<noteq> redirect_loop"
proof (rule downloadFile.raw_induct
    [where P = "\<lambda>net url destPath w y. net \<noteq> redirect_loop", OF _ returns])
  fix f :: "(jsstring \<Rightarrow> http_outcome) \<Rightarrow> jsstring \<Rightarrow> jsstring \<Rightarrow> world \<Rightarrow> (bool \<times> world) option"
  fix net url destPath w y
  assume IH: "\<And>net url destPath w y. f net url destPath w = Some y \<Longrightarrow> net \<noteq> redirect_loop"
  assume step: "(case net url of
      GetThrows \<Rightarrow> Some (False, w)
    | ErrorEvent \<Rightarrow> Some (False, w)
    | TimeoutEvent \<Rightarrow> Some (False, w)
    | Response statusCode location body \<Rightarrow>
        (if (statusCode = 301 \<or> statusCode = 302) \<and> truthy location then
           (case location of
              Some redirectUrl \<Rightarrow> f net redirectUrl destPath w
            | None \<Rightarrow> Some (False, w))
         else if statusCode \<noteq> 200 then Some (False, w)
         else
           (case writeFileSync w destPath body of
              Inl e \<Rightarrow> Some (False, w)
            | Inr w' \<Rightarrow> Some (True, w')))) = Some y"
  show "net \<noteq> redirect_loop"
  proof
    assume n: "net = redirect_loop"
    have "net url = Response 302 (Some (asc ''http://cdn.example/e'')) []"
      by (simp add: n redirect_loop_def)
    with step have "f net (asc ''http://cdn.example/e'') destPath w = Some y"
      by (simp add: truthy_def asc_def)
    from IH [OF this] n show False
      by simp
  qed
qed

lemma redirect_loop_diverges: "downloadFile redirect_loop url destPath w = None"
  using downloadFile_returns_not_loop [of redirect_loop url destPath w]
  by (cases "downloadFile redirect_loop url destPath w") auto

text \<open>
  C10 fails on \<open>downloadFile\<close>. With a server that answers every request with 302
  and a location, \<open>downloadFile\<close> calls itself again for every answer and never
  resolves, whatever the URL, the destination and the files are: nothing bounds the
  redirects it follows, where \<open>downloadToBuffer\<close> counts them down from 2.
\<close>

theorem downloadFile_redirect_loop_never_returns:
  "downloadFile redirect_loop url destPath w = None"
  by (rule redirect_loop_diverges)

text \<open>
  With it the export of the emoji that is downloaded never returns, and neither does
  the writer that waits for it. On the same server \<open>downloadToBuffer\<close> gives up
  after its two redirects.
\<close>

lemma exportEmoji_never_returns:
  "exportEmoji example_services example_emoji_message (asc ''room'') (asc ''out'') empty_world
     = None"
  by (simp add: exportEmoji_def ensure_dir_def existsSync_def mkdirSync_def path_join_def
      truthy_def or_str_def emoji_ext_def example_emoji_message_def example_services_def
      empty_world_def asc_def Let_def redirect_loop_diverges)

lemma downloadToBuffer_redirect_loop_stops:
  "downloadToBuffer redirect_loop resolve url 2 = Inr None"
  by (simp add: redirect_loop_def truthy_def asc_def numeral_2_eq_2)

text \<open>
  What holds of the claim for \<open>downloadFile\<close>: a request that throws, fails or
  times out, and an answer that is neither 200 nor a redirect with a location, resolve
  to \<open>false\<close> and leave the files as they are.
\<close>

lemma downloadFile_resolves_false:
  assumes "net url = GetThrows \<or> net url = ErrorEvent \<or> net url = TimeoutEvent
           \<or> (\<exists>status location body. net url = Response status location body
                  \<and> status \<noteq> 200 \<and> \<not> ((status = 301 \<or> status = 302) \<and> truthy location))"
  shows "downloadFile net url destPath w = Some (False, w)"
  using assms by (subst downloadFile.simps) auto

text \<open>
  C3 fails for an image that comes back as a data URL. \<open>exportImage\<close> is run twice
  on the same message and output directory: both runs return the same relative path,
  the file exists after the first run, and the second run writes it again.
\<close>

theorem exportImage_twice:
  "(case exportImage example_services example_image_message (asc ''room'') (asc ''out'') empty_world of
      (r1, w1) \<Rightarrow>
        (case exportImage example_services example_image_message (asc ''room'') (asc ''out'') w1 of
           (r2, w2) \<Rightarrow>
             r1 = Some \<lparr>relativePath = asc ''media/images/abc.png'', kind = Image\<rparr>
             \<and> r2 = r1
             \<and> existsSync w1 (asc ''out/media/images/abc.png'')
             \<and> written w1 = [asc ''out/media/images/abc.png'']
             \<and> written w2 = [asc ''out/media/images/abc.png'', asc ''out/media/images/abc.png'']))"
  by (simp add: media_eval example_services_def example_image_message_def empty_world_def
      base64_none_def asc_def ch_def Let_def)

text \<open>
  In general: when the image comes back as a data URL with a comma, the file is written
  at the target, whether the target exists or not.
\<close>

lemma exportImage_data_url_always_writes:
  assumes "existsSync w (path_join (path_join mediaDir (asc ''media'')) (asc ''images''))"
    and "truthy (imageMd5 msg) \<or> truthy (imageDatName msg)"
    and "decryptImage sv sessionId (imageMd5 msg) (imageDatName msg)
           = Inr \<lparr>ir_success = True, ir_localPath = Some url\<rparr>"
    and "startsWith url (asc ''data:'')" and "split_comma_second url = Some base64Data"
    and "\<not> unwritable w (path_join (path_join (path_join mediaDir (asc ''media'')) (asc ''images''))
           (image_key msg @ getExtFromDataUrl url))"
  shows "written (snd (exportImage sv msg sessionId mediaDir w)) =
           written w @ [path_join (path_join (path_join mediaDir (asc ''media'')) (asc ''images''))
                          (image_key msg @ getExtFromDataUrl url)]"
proof -
  from assms(4) have "url \<noteq> []"
    by (auto simp: asc_def)
  with assms show ?thesis
    by (auto simp: exportImage_def exportImage_body_def ensure_dir_def catch_null_def Let_def
        truthy_def writeFileSync_def)
qed

text \<open>
  The other paths of the extractor look before they write: a voice file, an emoji and an
  image copied from a file are returned with the world unchanged when the target exists.
\<close>

lemma exportVoice_skips_existing:
  assumes "existsSync w (path_join (path_join mediaDir (asc ''media'')) (asc ''voices''))"
    and "existsSync w (path_join (path_join (path_join mediaDir (asc ''media'')) (asc ''voices''))
           (asc ''voice_'' @ String_of_int (localId msg) @ asc ''.wav''))"
  shows "exportVoice sv msg sessionId mediaDir w =
           (Some \<lparr>relativePath = asc ''media/voices/'' @ asc ''voice_''
                      @ String_of_int (localId msg) @ asc ''.wav'', kind = Voice\<rparr>, w)"
  using assms
  by (simp add: exportVoice_def exportVoice_body_def ensure_dir_def catch_null_def Let_def)

lemma exportEmoji_skips_existing:
  assumes "existsSync w (path_join (path_join mediaDir (asc ''media'')) (asc ''emojis''))"
    and "truthy (emojiCdnUrl msg) \<or> truthy (emojiMd5 msg)"
    and "existsSync w (path_join (path_join (path_join mediaDir (asc ''media'')) (asc ''emojis''))
           (or_str (emojiMd5 msg) (String_of_int (localId msg)) @ emoji_ext (emojiCdnUrl msg)))"
  shows "exportEmoji sv msg sessionId mediaDir w =
           Some (Some \<lparr>relativePath = asc ''media/emojis/''
                          @ or_str (emojiMd5 msg) (String_of_int (localId msg))
                          @ emoji_ext (emojiCdnUrl msg), kind = Emoji\<rparr>, w)"
  using assms
  by (auto simp: exportEmoji_def ensure_dir_def Let_def)

lemma exportImage_copy_skips_existing:
  assumes "existsSync w (path_join (path_join mediaDir (asc ''media'')) (asc ''images''))"
    and "truthy (imageMd5 msg) \<or> truthy (imageDatName msg)"
    and "decryptImage sv sessionId (imageMd5 msg) (imageDatName msg)
           = Inr \<lparr>ir_success = True, ir_localPath = Some path\<rparr>"
    and "path \<noteq> []" and "\<not> startsWith path (asc ''data:'')"
    and "\<not> startsWith path (asc ''file://'')" and "existsSync w path"
    and "existsSync w (path_join (path_join (path_join mediaDir (asc ''media'')) (asc ''images''))
           (image_key msg @ or_else (path_extname sv path) (asc ''.jpg'')))"
  shows "exportImage sv msg sessionId mediaDir w =
           (Some \<lparr>relativePath = asc ''media/images/'' @ image_key msg
                      @ or_else (path_extname sv path) (asc ''.jpg''), kind = Image\<rparr>, w)"
  using assms
  by (auto simp: exportImage_def exportImage_body_def ensure_dir_def catch_null_def Let_def
      truthy_def)

section \<open>Batch accounting\<close>











section \<open>What the parser throws\<close>

lemma unbalanced_var_pattern: "unbalanced_groups False 0 (var_pattern (asc ''(''))"
  by (simp add: var_pattern_def asc_def ch_def)

text \<open>
  C6 fails for a system message. The content is a pat template whose placeholder is
  \<open>${(}\<close>. \<open>cleanSystemMessage\<close> builds a pattern from the name \<open>(\<close> as it is;
  the group it opens is never closed, the constructor throws a \<open>SyntaxError\<close>, and
  nothing between it and the caller of \<open>parseMessageContent\<close> catches it, where
  \<open>parseVoipMessage\<close> has a \<open>try\<close> block of its own.
\<close>

theorem parseMessageContent_throws:
  assumes "RegExp_throws_on_unbalanced RegExp_new"
  shows "parseMessageContent RegExp_new (asc ''<template><![CDATA[${(}]]></template>'') 10000
           = Inl SyntaxError"
proof -
  from assms unbalanced_var_pattern have "RegExp_new (var_pattern (asc ''('')) = Inl SyntaxError"
    by (simp add: RegExp_throws_on_unbalanced_def)
  then show ?thesis
    by (simp add: regex_eval parser_eval label_eval)
qed

lemma RegExp_refusing_throws: "RegExp_throws_on_unbalanced RegExp_refusing"
  by (simp add: RegExp_throws_on_unbalanced_def RegExp_refusing_def)

theorem parseMessageContent_throws_witness:
  "RegExp_throws_on_unbalanced RegExp_refusing
   \<and> parseMessageContent RegExp_refusing (asc ''<template><![CDATA[${(}]]></template>'') 10000
       = Inl SyntaxError"
  using parseMessageContent_throws [OF RegExp_refusing_throws] RegExp_refusing_throws
  by simp

text \<open>
  What holds of the claim: empty content gives \<open>null\<close>, a call message never throws,
  and no message of a type other than the two that go to \<open>cleanSystemMessage\<close> throws.
\<close>

lemma parseMessageContent_empty: "parseMessageContent RegExp_new [] t = Inr None"
  by (simp add: parseMessageContent_def)

lemma parseVoipMessage_never_throws: "\<exists>s. parseVoipMessage c = Inr s"
  by (simp add: parseVoipMessage_def try_catch_def)

lemma parseMessageContent_other_types:
  assumes "t \<noteq> 10000" and "t \<noteq> 266287972401"
  shows "\<exists>v. parseMessageContent RegExp_new c t = Inr v"
  using assms parseVoipMessage_never_throws [of c]
  by (auto simp: parseMessageContent_def Let_def)

end
